theory Spec2Isabelle
  imports Complex_Main "HOL-Library.AList"
begin

section \<open>Python strings and slices\<close>

text \<open>
  A Python \<open>str\<close> is modelled as a \<open>string\<close>, one \<open>char\<close> per code point, so
  \<open>length\<close> and slicing count what Python counts. The alphabet is the code points
  0..255, with one exchange: the code names a single character from beyond that range,
  the bullet U+2022, and \<open>CHR 0x95\<close> stands for it in place of the control character
  U+0095, which the code never names. The character classes below are Python's, cut
  down to this alphabet; the bullet is neither whitespace, nor a line boundary, nor a
  capital.
\<close>

definition bullet :: string where
  \<comment> \<open>the string of one character, the bullet\<close>
  "bullet = [CHR 0x95]"

definition isspace :: "char \<Rightarrow> bool" where
  \<comment> \<open>\<open>str.isspace\<close> on one character: TAB, LF, VT, FF, CR, FS, GS, RS, US, space, NEL, NBSP\<close>
  "isspace c = ((of_char c :: nat) \<in> {9, 10, 11, 12, 13, 28, 29, 30, 31, 32, 133, 160})"

definition lstrip :: "string \<Rightarrow> string" where
  "lstrip s = dropWhile isspace s"

definition rstrip :: "string \<Rightarrow> string" where
  "rstrip s = rev (dropWhile isspace (rev s))"

definition strip :: "string \<Rightarrow> string" where
  "strip s = lstrip (rstrip s)"

definition lstrip_chars :: "string \<Rightarrow> string \<Rightarrow> string" where
  \<comment> \<open>\<open>s.lstrip(chars)\<close>\<close>
  "lstrip_chars s cs = dropWhile (\<lambda>c. c \<in> set cs) s"

definition startswith :: "string \<Rightarrow> string \<Rightarrow> bool" where
  "startswith s p = (take (length p) s = p)"

definition lower_char :: "char \<Rightarrow> char" where
  \<comment> \<open>A..Z, and the Latin-1 capitals 0xC0..0xDE without the multiplication sign 0xD7\<close>
  "lower_char c =
     (let n = (of_char c :: nat)
      in if (65 \<le> n \<and> n \<le> 90) \<or> (192 \<le> n \<and> n \<le> 222 \<and> n \<noteq> 215)
         then char_of (n + 32) else c)"

definition lower :: "string \<Rightarrow> string" where
  "lower s = map lower_char s"

fun contains :: "string \<Rightarrow> string \<Rightarrow> bool" where
  \<comment> \<open>\<open>sub in s\<close>\<close>
  "contains [] sub = (sub = [])"
| "contains (c # cs) sub = (startswith (c # cs) sub \<or> contains cs sub)"

fun find_str :: "string \<Rightarrow> string \<Rightarrow> int" where
  \<comment> \<open>\<open>s.find(sub)\<close>: the lowest index where \<open>sub\<close> starts, or -1\<close>
  "find_str [] sub = (if sub = [] then 0 else -1)"
| "find_str (c # cs) sub =
     (if startswith (c # cs) sub then 0
      else (let r = find_str cs sub in if r = -1 then -1 else r + 1))"

fun rfind :: "string \<Rightarrow> string \<Rightarrow> int" where
  \<comment> \<open>\<open>s.rfind(sub)\<close>: the highest index where \<open>sub\<close> starts, or -1\<close>
  "rfind [] sub = (if sub = [] then 0 else -1)"
| "rfind (c # cs) sub =
     (let r = rfind cs sub
      in if r \<noteq> -1 then r + 1 else if startswith (c # cs) sub then 0 else -1)"

definition norm_index :: "nat \<Rightarrow> int \<Rightarrow> nat" where
  \<comment> \<open>a slice bound: a negative bound counts from the end, and the result is clamped\<close>
  "norm_index n i = (if i < 0 then nat (int n + i) else min n (nat i))"

definition py_slice :: "'a list \<Rightarrow> int \<Rightarrow> int \<Rightarrow> 'a list" where
  \<comment> \<open>\<open>xs[a:b]\<close>\<close>
  "py_slice xs a b =
     (let i = norm_index (length xs) a; j = norm_index (length xs) b
      in take (j - i) (drop i xs))"

definition py_upto :: "'a list \<Rightarrow> int \<Rightarrow> 'a list" where
  \<comment> \<open>\<open>xs[:k]\<close>\<close>
  "py_upto xs k = take (norm_index (length xs) k) xs"

definition py_but_first :: "'a list \<Rightarrow> 'a list" where
  \<comment> \<open>\<open>xs[1:]\<close>\<close>
  "py_but_first xs = drop 1 xs"

definition py_but_last :: "'a list \<Rightarrow> 'a list" where
  \<comment> \<open>\<open>xs[:-1]\<close>\<close>
  "py_but_last xs = py_upto xs (-1)"

definition linebreak :: "char \<Rightarrow> bool" where
  \<comment> \<open>the line boundaries of \<open>str.splitlines\<close>: LF, VT, FF, CR, FS, GS, RS, NEL\<close>
  "linebreak c = ((of_char c :: nat) \<in> {10, 11, 12, 13, 28, 29, 30, 133})"

fun splitlines_from :: "string \<Rightarrow> string \<Rightarrow> string list" where
  \<comment> \<open>the first argument is the line read so far; CR LF is one boundary\<close>
  "splitlines_from cur [] = (if cur = [] then [] else [cur])"
| "splitlines_from cur (c # cs) =
     (if linebreak c
      then (case cs of
              d # ds \<Rightarrow>
                if c = CHR 0x0D \<and> d = CHR 0x0A then cur # splitlines_from [] ds
                else cur # splitlines_from [] cs
            | [] \<Rightarrow> [cur])
      else splitlines_from (cur @ [c]) cs)"

definition splitlines :: "string \<Rightarrow> string list" where
  "splitlines s = splitlines_from [] s"

fun split_from :: "char \<Rightarrow> string \<Rightarrow> string \<Rightarrow> string list" where
  "split_from sep cur [] = [cur]"
| "split_from sep cur (c # cs) =
     (if c = sep then cur # split_from sep [] cs else split_from sep (cur @ [c]) cs)"

definition split_nl :: "string \<Rightarrow> string list" where
  \<comment> \<open>\<open>s.split("\n")\<close>\<close>
  "split_nl s = split_from CHR 0x0A [] s"

fun str_join :: "string \<Rightarrow> string list \<Rightarrow> string" where
  \<comment> \<open>\<open>sep.join(xs)\<close>\<close>
  "str_join sep [] = []"
| "str_join sep [x] = x"
| "str_join sep (x # y # ys) = x @ sep @ str_join sep (y # ys)"

section \<open>Python values\<close>

text \<open>
  The values that \<open>json.loads\<close> returns and that the code puts into its dict literals.
  A dict is an association list in insertion order. A float is read as the real number
  it denotes; no modelled function computes with one.
\<close>

datatype pyval =
    PNone
  | PBool bool
  | PInt int
  | PFloat real
  | PStr string
  | PList "pyval list"
  | PDict "(string \<times> pyval) list"

type_synonym pydict = "(string \<times> pyval) list"

definition dict_get :: "pydict \<Rightarrow> string \<Rightarrow> pyval \<Rightarrow> pyval" where
  \<comment> \<open>\<open>d.get(key, default)\<close>\<close>
  "dict_get d k dflt = (case map_of d k of None \<Rightarrow> dflt | Some v \<Rightarrow> v)"

definition setdefault :: "pydict \<Rightarrow> string \<Rightarrow> pyval \<Rightarrow> pydict" where
  \<comment> \<open>\<open>d.setdefault(key, default)\<close>, as the dict it leaves behind\<close>
  "setdefault d k dflt = (if map_of d k = None then d @ [(k, dflt)] else d)"

definition has_key :: "pydict \<Rightarrow> string \<Rightarrow> bool" where
  \<comment> \<open>\<open>key in d\<close>\<close>
  "has_key d k = (map_of d k \<noteq> None)"

fun py_num :: "pyval \<Rightarrow> real option" where
  \<comment> \<open>the number a bool, int or float compares as\<close>
  "py_num (PBool b) = Some (if b then 1 else 0)"
| "py_num (PInt i) = Some (of_int i)"
| "py_num (PFloat r) = Some r"
| "py_num _ = None"

fun py_eq :: "pyval \<Rightarrow> pyval \<Rightarrow> bool" where
  \<comment> \<open>\<open>a == b\<close>: numbers by value, lists by position, dicts key by key\<close>
  "py_eq PNone b = (b = PNone)"
| "py_eq (PStr s) b = (b = PStr s)"
| "py_eq (PList xs) b = (case b of PList ys \<Rightarrow> list_all2 py_eq xs ys | _ \<Rightarrow> False)"
| "py_eq (PDict xs) b =
     (case b of
        PDict ys \<Rightarrow>
          length xs = length ys \<and>
          list_all (\<lambda>(k, v). case map_of ys k of None \<Rightarrow> False | Some w \<Rightarrow> py_eq v w) xs
      | _ \<Rightarrow> False)"
| "py_eq a b = (case py_num b of None \<Rightarrow> False | Some y \<Rightarrow> py_num a = Some y)"

section \<open>The memory store (app/agents/base.py)\<close>

record entry =
  entry_text :: string
  entry_metadata :: pydict

record Memory =
  entries :: "entry list"
  metadata :: pydict

definition Memory_init :: Memory where
  "Memory_init = \<lparr>entries = [], metadata = []\<rparr>"

text \<open>
  Every method takes the store and returns its result together with the store it
  leaves behind.
\<close>

definition or_empty :: "pydict option \<Rightarrow> pydict" where
  \<comment> \<open>\<open>metadata or {}\<close>: None and the empty dict are both falsy\<close>
  "or_empty md = (case md of None \<Rightarrow> [] | Some d \<Rightarrow> if d = [] then [] else d)"

definition Memory_write :: "string \<Rightarrow> pydict option \<Rightarrow> Memory \<Rightarrow> unit \<times> Memory" where
  "Memory_write txt md M =
     ((), M\<lparr>entries := entries M @ [\<lparr>entry_text = txt, entry_metadata = or_empty md\<rparr>]\<rparr>)"

definition search :: "string \<Rightarrow> int \<Rightarrow> Memory \<Rightarrow> entry list \<times> Memory" where
  "search query k M =
     (let q = strip (lower query);
          hits = filter (\<lambda>e. contains (lower (entry_text e)) q) (entries M)
      in (py_upto hits k, M))"

fun search_metadata_loop ::
  "string \<Rightarrow> pyval \<Rightarrow> int \<Rightarrow> entry list \<Rightarrow> entry list \<Rightarrow> entry list" where
  \<comment> \<open>the for loop over the reversed entries, with its break\<close>
  "search_metadata_loop key v k [] hits = hits"
| "search_metadata_loop key v k (e # es) hits =
     (let md = or_empty (Some (entry_metadata e))
      in if py_eq (dict_get md key PNone) v
         then (let hits' = hits @ [e]
               in if int (length hits') \<ge> k then hits'
                  else search_metadata_loop key v k es hits')
         else search_metadata_loop key v k es hits)"

definition search_metadata ::
  "string \<Rightarrow> pyval \<Rightarrow> int \<Rightarrow> Memory \<Rightarrow> entry list \<times> Memory" where
  "search_metadata key v k M = (search_metadata_loop key v k (rev (entries M)) [], M)"

definition latest_by_type :: "string \<Rightarrow> Memory \<Rightarrow> entry option \<times> Memory" where
  "latest_by_type entry_type M =
     (let (hits, M') = search_metadata ''type'' (PStr entry_type) 1 M
      in (case hits of [] \<Rightarrow> None | h # _ \<Rightarrow> Some h, M'))"

definition all_entries :: "Memory \<Rightarrow> entry list \<times> Memory" where
  \<comment> \<open>\<open>Memory.all\<close>\<close>
  "all_entries M = (entries M, M)"

definition set_metadata :: "string \<Rightarrow> pyval \<Rightarrow> Memory \<Rightarrow> unit \<times> Memory" where
  "set_metadata key v M = ((), M\<lparr>metadata := AList.update key v (metadata M)\<rparr>)"

definition get_metadata :: "string \<Rightarrow> pyval \<Rightarrow> Memory \<Rightarrow> pyval \<times> Memory" where
  "get_metadata key dflt M = (dict_get (metadata M) key dflt, M)"

definition clear :: "Memory \<Rightarrow> unit \<times> Memory" where
  "clear M = ((), M\<lparr>entries := [], metadata := []\<rparr>)"

section \<open>The library functions the code calls\<close>

text \<open>
  \<open>json.loads\<close>, \<open>json.dumps\<close>, \<open>float\<close> and float formatting belong to Python, not
  to this repository: the code is modelled for any behaviour of them.
\<close>

record pylib =
  json_loads :: "string \<Rightarrow> pyval option"
    \<comment> \<open>\<open>json.loads(s)\<close>; None when it raises\<close>
  json_dumps :: "pyval \<Rightarrow> string"
    \<comment> \<open>\<open>json.dumps(v)\<close>\<close>
  json_dumps_indent2 :: "pyval \<Rightarrow> string"
    \<comment> \<open>\<open>json.dumps(v, indent=2)\<close>\<close>
  float_of :: "pyval \<Rightarrow> real option"
    \<comment> \<open>\<open>float(v)\<close>; None when it raises\<close>
  format_mean :: "real list \<Rightarrow> string"
    \<comment> \<open>\<open>sum(xs) / len(xs) if xs else 0.0\<close>, formatted with \<open>:.1f\<close>\<close>
  py_str :: "pyval \<Rightarrow> string"
    \<comment> \<open>\<open>str(v)\<close>, which an f-string applies to a value\<close>

datatype error =
    ValueError string
  | KeyError string
  | IndexError
  | JSONDecodeError
    \<comment> \<open>\<open>json.JSONDecodeError\<close>, a subclass of ValueError: raised by \<open>json.loads\<close>, and
        by \<open>response.json()\<close> in the client\<close>
  | FloatError
    \<comment> \<open>the ValueError, TypeError or OverflowError of \<open>float(v)\<close>\<close>
  | ProviderError
    \<comment> \<open>\<open>httpx.HTTPError\<close>, or another exception of the call to the provider that has
        no name above\<close>
  | HTTPException nat string

section \<open>extract_json (app/agents/matchmaker.py)\<close>

definition fence :: string where
  "fence = [CHR 0x60, CHR 0x60, CHR 0x60]"

definition extract_json_text :: "string \<Rightarrow> string" where
  \<comment> \<open>the value of \<open>t\<close> that \<open>extract_json\<close> hands to \<open>json.loads\<close>\<close>
  "extract_json_text text =
     (let t = strip text;
          t = (if startswith t fence
               then (let lines = splitlines t;
                         lines = (if lines \<noteq> [] then py_but_first lines else lines);
                         lines = (if lines \<noteq> [] \<and> startswith (strip (last lines)) fence
                                  then py_but_last lines else lines)
                     in strip (str_join ''\<newline>'' lines))
               else t);
          start = find_str t ''{'';
          end = rfind t ''}''
      in if start \<noteq> -1 \<and> end \<noteq> -1 \<and> end > start
         then py_slice t start (end + 1) else t)"

definition extract_json :: "pylib \<Rightarrow> string \<Rightarrow> error + pyval" where
  "extract_json L text =
     (case json_loads L (extract_json_text text) of
        None \<Rightarrow> Inl JSONDecodeError
      | Some v \<Rightarrow> Inr v)"

section \<open>A small instance of the library\<close>

text \<open>
  \<open>json.loads\<close> cut down to a few documents: the empty object, the empty array,
  \<open>null\<close>, \<open>true\<close>, \<open>false\<close> and \<open>1\<close>, each between JSON whitespace. On these it
  returns what Python returns; the concrete runs below use only them and texts that
  Python rejects as well.
\<close>

definition json_space :: "char \<Rightarrow> bool" where
  "json_space c = (c \<in> {CHR '' '', CHR 0x09, CHR 0x0A, CHR 0x0D})"

definition small_loads :: "string \<Rightarrow> pyval option" where
  "small_loads s =
     (let d = rev (dropWhile json_space (rev (dropWhile json_space s)))
      in if d = ''{}'' then Some (PDict [])
         else if d = ''[]'' then Some (PList [])
         else if d = ''null'' then Some PNone
         else if d = ''true'' then Some (PBool True)
         else if d = ''false'' then Some (PBool False)
         else if d = ''1'' then Some (PInt 1)
         else None)"

definition small_lib :: pylib where
  "small_lib =
     \<lparr>json_loads = small_loads,
      json_dumps = (\<lambda>v. if v = PDict [] then ''{}'' else ''?''),
      json_dumps_indent2 = (\<lambda>v. if v = PDict [] then ''{}'' else ''?''),
      float_of = (\<lambda>v. case v of PInt i \<Rightarrow> Some (of_int i) | _ \<Rightarrow> None),
      format_mean = (\<lambda>xs. ''0.0''),
      py_str = (\<lambda>v. case v of PStr t \<Rightarrow> t | _ \<Rightarrow> ''?'')\<rparr>"

section \<open>The slice that extract_json decodes, in the words of its description\<close>

text \<open>
  After stripping, a text that starts with a code fence loses its first line and, when
  its last line is a fence too, its last line, and is stripped again. Then the part
  from the first opening brace through the last closing brace is taken, when that
  closing brace comes after the opening one. The flag says whether the last line is
  stripped before it is compared with the fence.
\<close>

definition drop_fence_lines :: "bool \<Rightarrow> string \<Rightarrow> string" where
  "drop_fence_lines stripped s =
     (if startswith s fence
      then (let ls = drop 1 (splitlines s);
                closing = (if ls = [] then [] else if stripped then strip (last ls) else last ls)
            in strip (str_join ''\<newline>'' (if ls \<noteq> [] \<and> startswith closing fence then butlast ls else ls)))
      else s)"

definition braced :: "string \<Rightarrow> string option" where
  \<comment> \<open>from the first opening brace through the last closing brace, when there is an
      opening brace and a closing brace after it\<close>
  "braced s =
     (let from_open = dropWhile (\<lambda>c. c \<noteq> CHR ''{'') s
      in if CHR ''{'' \<in> set s \<and> CHR ''}'' \<in> set (tl from_open)
         then Some (rev (dropWhile (\<lambda>c. c \<noteq> CHR ''}'') (rev from_open)))
         else None)"

definition outer_braces :: "string \<Rightarrow> string" where
  "outer_braces s = (case braced s of Some b \<Rightarrow> b | None \<Rightarrow> s)"

definition claimed_slice :: "string \<Rightarrow> string" where
  "claimed_slice t = outer_braces (drop_fence_lines False (strip t))"

definition amended_slice :: "string \<Rightarrow> string" where
  "amended_slice t = outer_braces (drop_fence_lines True (strip t))"

definition fenced_one :: string where
  "fenced_one = fence @ ''\<newline>1\<newline> '' @ fence"

section \<open>Users, the provider and the state of the process\<close>

record user =
  user_id :: string
  display_name :: string
  bio :: string
  traits :: "string list"
  boundaries :: "string list"
  user_notes :: string

record chat_message =
  role :: string
  content :: string

record chat_request =
  messages :: "chat_message list"
  temperature :: real

text \<open>The places in the source that call \<open>openrouter_client.chat\<close>.\<close>

datatype call_site =
    IntakeSummaryCall
  | NextQuestionCall
  | SceneCall
  | TestMomentCall
  | TurnCall nat
  | NotesCall
  | DeltaInsightCall
  | ReflectionCall
  | ScoreCall
  | PipelineReportCall

text \<open>
  The provider is an oracle: it answers the request that is the n-th one of the run
  with a text, or the call raises, and then the oracle says what: \<open>httpx.HTTPError\<close>
  from the request or from \<open>raise_for_status\<close>, the \<open>json.JSONDecodeError\<close> of
  \<open>response.json()\<close> on a body that is not JSON, or the KeyError, IndexError or TypeError
  of \<open>data["choices"][0]["message"]["content"]\<close>. \<open>environ\<close> is \<open>os.environ\<close>, which
  \<open>OpenRouterClient()\<close> reads.
\<close>

record provider =
  respond :: "nat \<Rightarrow> chat_request \<Rightarrow> string option"
    \<comment> \<open>the content of the reply; None when the call raises\<close>
  failure :: "nat \<Rightarrow> chat_request \<Rightarrow> error"
    \<comment> \<open>the exception of a call that raises\<close>
  environ :: "string \<rightharpoonup> string"

record MatchmakerAgent =
  agent_user_id :: string
  user_profile :: user
  memory :: Memory

record session =
  session_id :: string
  session_user_id :: string
  step_index :: int
  questions :: "string list"
  answers :: "string list"
  created_at :: real
  is_complete :: bool

text \<open>
  The state: the requests sent so far, the matchmaker agents (an agent object is named
  by a string, so two references to one agent share its memory), the users of the
  registry, the evaluator's memory, the sessions of the live intake and the clock that
  \<open>time.time()\<close> reads. The registry creates an agent for each of its users under
  the user's id.
\<close>

record world =
  calls :: "(call_site \<times> chat_request) list"
  matchmakers :: "string \<Rightarrow> MatchmakerAgent"
  registry_users :: "user list"
  evaluator_memory :: Memory
  sessions :: "string \<rightharpoonup> session"
  now :: real

type_synonym 'a action = "world \<Rightarrow> (error + 'a) \<times> world"

definition ok :: "'a \<Rightarrow> 'a action" where
  "ok x w = (Inr x, w)"

definition raise :: "error \<Rightarrow> 'a action" where
  "raise e w = (Inl e, w)"

definition and_then :: "'a action \<Rightarrow> ('a \<Rightarrow> 'b action) \<Rightarrow> 'b action" where
  \<comment> \<open>run the first; an exception ends the sequence, with the state reached so far\<close>
  "and_then m f w = (case m w of (Inl e, w') \<Rightarrow> (Inl e, w') | (Inr x, w') \<Rightarrow> f x w')"

definition try_except :: "'a action \<Rightarrow> 'a action \<Rightarrow> 'a action" where
  \<comment> \<open>\<open>try: ... except Exception: ...\<close>; what the body changed before raising stays\<close>
  "try_except m h w = (case m w of (Inl e, w') \<Rightarrow> h w' | (Inr x, w') \<Rightarrow> (Inr x, w'))"

definition chat :: "provider \<Rightarrow> call_site \<Rightarrow> chat_request \<Rightarrow> string action" where
  \<comment> \<open>\<open>OpenRouterClient.chat\<close>: one request to the provider\<close>
  "chat P site req w =
     (case respond P (length (calls w)) req of
        None \<Rightarrow> Inl (failure P (length (calls w)) req)
      | Some r \<Rightarrow> Inr r,
      w\<lparr>calls := calls w @ [(site, req)]\<rparr>)"

definition OpenRouterClient :: "provider \<Rightarrow> unit action" where
  \<comment> \<open>the constructor reads \<open>os.environ["OPENROUTER_API_KEY"]\<close>, then
      \<open>os.environ["OPENROUTER_MODEL"]\<close>; a missing variable raises KeyError\<close>
  "OpenRouterClient P w =
     (case environ P ''OPENROUTER_API_KEY'' of
        None \<Rightarrow> (Inl (KeyError ''OPENROUTER_API_KEY''), w)
      | Some api_key \<Rightarrow>
          (case environ P ''OPENROUTER_MODEL'' of
             None \<Rightarrow> (Inl (KeyError ''OPENROUTER_MODEL''), w)
           | Some model \<Rightarrow> (Inr (), w)))"

definition user_message :: "string \<Rightarrow> chat_message" where
  "user_message prompt = \<lparr>role = ''user'', content = prompt\<rparr>"

definition agent_write :: "string \<Rightarrow> string \<Rightarrow> pydict \<Rightarrow> world \<Rightarrow> world" where
  \<comment> \<open>\<open>agent.memory.write(text=..., metadata=...)\<close> on a matchmaker agent\<close>
  "agent_write a txt md w =
     w\<lparr>matchmakers := (matchmakers w)
          (a := (matchmakers w a)
             \<lparr>memory := snd (Memory_write txt (Some md) (memory (matchmakers w a)))\<rparr>)\<rparr>"

definition evaluator_write :: "string \<Rightarrow> pydict \<Rightarrow> world \<Rightarrow> world" where
  \<comment> \<open>\<open>self.memory.write(text=..., metadata=...)\<close> on the evaluator\<close>
  "evaluator_write txt md w =
     w\<lparr>evaluator_memory := snd (Memory_write txt (Some md) (evaluator_memory w))\<rparr>"


definition get_matchmaker :: "world \<Rightarrow> string \<Rightarrow> string option" where
  \<comment> \<open>\<open>self._matchmakers.get(user_id)\<close>: the agent of a user of the registry, or None\<close>
  "get_matchmaker w uid =
     (if list_ex (\<lambda>u. user_id u = uid) (registry_users w) then Some uid else None)"

definition user_dict :: "user \<Rightarrow> pyval" where
  "user_dict u =
     PDict [(''user_id'', PStr (user_id u)), (''display_name'', PStr (display_name u)),
            (''bio'', PStr (bio u)), (''traits'', PList (map PStr (traits u))),
            (''boundaries'', PList (map PStr (boundaries u))), (''notes'', PStr (user_notes u))]"

definition MatchmakerAgent_init :: "string \<Rightarrow> user \<Rightarrow> MatchmakerAgent" where
  "MatchmakerAgent_init uid profile =
     \<lparr>agent_user_id = uid, user_profile = profile,
      memory = snd (set_metadata ''profile'' (user_dict profile)
                 (snd (set_metadata ''user_id'' (PStr uid) Memory_init)))\<rparr>"

section \<open>The matchmaker agent (app/agents/matchmaker.py)\<close>

definition intake_prompt_head :: "user \<Rightarrow> string" where
  "intake_prompt_head user =
     ''You are analyzing a dating profile for intake. Based on this profile, generate a structured summary.\<newline>'' @
     ''\<newline>'' @
     ''User Profile:\<newline>'' @
     ''- Name: '' @ display_name user @ ''\<newline>'' @
     ''- Bio: '' @ bio user @ ''\<newline>'' @
     ''- Traits: '' @ str_join '', '' (traits user) @ ''\<newline>'' @
     ''- Boundaries: '' @ str_join '', '' (boundaries user)"

definition intake_prompt_notes :: "string \<Rightarrow> string" where
  "intake_prompt_notes extra_context =
     ''\<newline>'' @
     ''\<newline>'' @
     ''Live Intake Notes (Q/A):\<newline>'' @
     extra_context"

definition intake_prompt_rules :: "string" where
  "intake_prompt_rules =
     ''\<newline>'' @
     ''\<newline>'' @
     ''Generate a JSON response with this exact structure:\<newline>'' @
     ''{\<newline>'' @
     ''  \"preferences\": [\<newline>'' @
     ''    \"preference 1\",\<newline>'' @
     ''    \"preference 2\",\<newline>'' @
     ''    \"preference 3\",\<newline>'' @
     ''    \"preference 4\",\<newline>'' @
     ''    \"preference 5\",\<newline>'' @
     ''    \"preference 6\"\<newline>'' @
     ''  ],\<newline>'' @
     ''  \"dealbreakers\": [\<newline>'' @
     ''    \"dealbreaker 1\",\<newline>'' @
     ''    \"dealbreaker 2\",\<newline>'' @
     ''    \"dealbreaker 3\"\<newline>'' @
     ''  ],\<newline>'' @
     ''  \"dating_thesis\": \"One sentence summarizing their dating philosophy and what they'' @ [CHR 0x27] @ ''re looking for\"\<newline>'' @
     ''}\<newline>'' @
     ''\<newline>'' @
     ''Rules:\<newline>'' @
     ''- Return ONLY valid JSON (no markdown, no extra text).\<newline>'' @
     ''- Be specific and insightful. Infer preferences from traits/bio/boundaries.\<newline>'' @
     ''- If Live Intake Notes are provided, incorporate those insights into the summary.\<newline>''"

definition truthy_str :: "string option \<Rightarrow> bool" where
  \<comment> \<open>the truth value of an optional string: None and the empty string are falsy\<close>
  "truthy_str x = (case x of None \<Rightarrow> False | Some t \<Rightarrow> t \<noteq> [])"

definition intake_prompt :: "user \<Rightarrow> string option \<Rightarrow> string" where
  "intake_prompt user extra_context =
     intake_prompt_head user
     @ (if truthy_str extra_context then intake_prompt_notes (the extra_context) else [])
     @ intake_prompt_rules"

definition intake_fallback :: "string \<Rightarrow> pydict" where
  "intake_fallback response_text =
     [(''preferences'', PList [PStr ''Unable to parse preferences'']),
      (''dealbreakers'', PList [PStr ''Unable to parse dealbreakers'']),
      (''dating_thesis'', PStr (py_upto (strip response_text) 240))]"

definition parse_intake :: "pylib \<Rightarrow> string \<Rightarrow> error + pydict" where
  \<comment> \<open>the body of the try block of \<open>run_intake_summary\<close>\<close>
  "parse_intake L response_text =
     (case extract_json L response_text of
        Inl e \<Rightarrow> Inl e
      | Inr summary \<Rightarrow>
          (case summary of
             PDict d \<Rightarrow>
               Inr (setdefault
                     (setdefault (setdefault d ''preferences'' (PList []))
                        ''dealbreakers'' (PList []))
                     ''dating_thesis'' (PStr []))
           | _ \<Rightarrow> Inl (ValueError ''Parsed JSON is not an object'')))"

definition run_intake_summary ::
  "pylib \<Rightarrow> provider \<Rightarrow> string \<Rightarrow> string option \<Rightarrow> pydict action" where
  "run_intake_summary L P self extra_context w =
     (let user = user_profile (matchmakers w self);
          prompt = intake_prompt user extra_context
      in and_then
           (chat P IntakeSummaryCall \<lparr>messages = [user_message prompt], temperature = 0.7\<rparr>)
           (\<lambda>response_text w'.
              let summary = (case parse_intake L response_text of
                               Inr d \<Rightarrow> d
                             | Inl e \<Rightarrow> intake_fallback response_text)
              in (Inr summary,
                  agent_write self
                    (''Intake summary for '' @ display_name user @ '': ''
                       @ json_dumps L (PDict summary))
                    [(''type'', PStr ''intake_summary''),
                     (''user_id'', PStr (agent_user_id (matchmakers w' self))),
                     (''timestamp'', PFloat (now w'))]
                    w'))
           w)"

section \<open>The evaluator agent (app/agents/evaluator.py)\<close>

record turn =
  speaker :: string
  name :: string
  turn_text :: string

text \<open>The dict that \<open>run_date_exchange\<close> returns, a field for each of its keys.\<close>

record date_exchange =
  ex_scene :: string
  ex_transcript :: "turn list"
  ex_evaluator_notes :: "string list"
  ex_delta_insight :: string
  ex_reflections :: "(string \<times> string) list"
  ex_score :: pydict

definition no_intake_summary :: pyval where
  "no_intake_summary =
     PDict [(''preferences'', PList [PStr ''No intake summary available'']),
            (''dealbreakers'', PList [PStr ''No intake summary available'']),
            (''dating_thesis'', PStr ''No intake summary available'')]"

definition extract_intake_summary :: "pylib \<Rightarrow> string option \<Rightarrow> world \<Rightarrow> pyval" where
  \<comment> \<open>\<open>_extract_intake_summary\<close>; an agent object is truthy and has a memory\<close>
  "extract_intake_summary L agent w =
     (case agent of
        None \<Rightarrow> no_intake_summary
      | Some a \<Rightarrow>
          (let results = fst (search ''Intake summary'' 5 (memory (matchmakers w a)));
               entry = (if results \<noteq> [] then Some (last results) else None)
           in case entry of
                None \<Rightarrow> no_intake_summary
              | Some e \<Rightarrow>
                  (let txt = entry_text e;
                       start = find_str txt ''{'';
                       end = rfind txt ''}''
                   in if start \<noteq> -1 \<and> end \<noteq> -1 \<and> end > start
                      then (case json_loads L (py_slice txt start (end + 1)) of
                              Some v \<Rightarrow> v
                            | None \<Rightarrow> no_intake_summary)
                      else no_intake_summary)))"

definition transcript_text_of :: "turn list \<Rightarrow> string" where
  "transcript_text_of transcript =
     str_join ''\<newline>'' (map (\<lambda>t. name t @ '': '' @ turn_text t) transcript)"

definition score_prompt :: "pylib \<Rightarrow> string \<Rightarrow> string \<Rightarrow> pyval \<Rightarrow> pyval \<Rightarrow> string" where
  "score_prompt L scene transcript_text intake_a intake_b =
     ''You are scoring a first date exchange. Analyze the conversation and return a JSON score.\<newline>'' @
     ''\<newline>'' @
     ''Scene: '' @ scene @ ''\<newline>'' @
     ''\<newline>'' @
     ''Transcript:\<newline>'' @
     transcript_text @ ''\<newline>'' @
     ''\<newline>'' @
     ''Intake Summary A:\<newline>'' @
     json_dumps_indent2 L intake_a @ ''\<newline>'' @
     ''\<newline>'' @
     ''Intake Summary B:\<newline>'' @
     json_dumps_indent2 L intake_b @ ''\<newline>'' @
     ''\<newline>'' @
     ''Generate a JSON response with this EXACT structure:\<newline>'' @
     ''{\<newline>'' @
     ''  \"score_a\": <0-10 integer, how well A performed>,\<newline>'' @
     ''  \"score_b\": <0-10 integer, how well B performed>,\<newline>'' @
     ''  \"compatibility\": <0-100 integer, overall compatibility>,\<newline>'' @
     ''  \"reasons\": [\<newline>'' @
     ''    \"reason 1 grounded in behavior\",\<newline>'' @
     ''    \"reason 2 grounded in behavior\",\<newline>'' @
     ''    \"reason 3 grounded in behavior\"\<newline>'' @
     ''  ],\<newline>'' @
     ''  \"quote\": \"one short memorable quote from the transcript (under 100 chars)\"\<newline>'' @
     ''}\<newline>'' @
     ''\<newline>'' @
     ''Rules:\<newline>'' @
     ''- Return ONLY valid JSON, no markdown, no extra text\<newline>'' @
     ''- Scores should reflect communication quality, boundary respect, and alignment with intake preferences\<newline>'' @
     ''- Quote should be verbatim from transcript\<newline>''"

definition failed_score :: pydict where
  "failed_score =
     [(''score_a'', PInt 5), (''score_b'', PInt 5), (''compatibility'', PInt 50),
      (''reasons'', PList [PStr ''Scoring failed - unable to parse LLM response'']),
      (''quote'', PStr [])]"

definition parse_score :: "pylib \<Rightarrow> string \<Rightarrow> error + pydict" where
  \<comment> \<open>the body of the try block of \<open>score_date_exchange\<close>\<close>
  "parse_score L response =
     (case extract_json L response of
        Inl e \<Rightarrow> Inl e
      | Inr score_data \<Rightarrow>
          (case score_data of
             PDict d \<Rightarrow>
               Inr (setdefault
                     (setdefault
                        (setdefault
                           (setdefault (setdefault d ''score_a'' (PInt 5)) ''score_b'' (PInt 5))
                           ''compatibility'' (PInt 50))
                        ''reasons'' (PList [PStr ''Unable to parse reasons'']))
                     ''quote'' (PStr []))
           | _ \<Rightarrow> Inl (ValueError ''score_data not dict'')))"

definition score_date_exchange ::
  "pylib \<Rightarrow> provider \<Rightarrow> string \<Rightarrow> turn list \<Rightarrow> pyval \<Rightarrow> pyval \<Rightarrow> pydict action" where
  "score_date_exchange L P scene transcript intake_a intake_b =
     and_then
       (chat P ScoreCall
          \<lparr>messages = [user_message
                         (score_prompt L scene (transcript_text_of transcript) intake_a intake_b)],
           temperature = 0.5\<rparr>)
       (\<lambda>response.
          ok (case parse_score L response of Inr d \<Rightarrow> d | Inl e \<Rightarrow> failed_score))"

definition scene_prompt :: "user \<Rightarrow> user \<Rightarrow> string" where
  "scene_prompt user_a user_b =
     ''You are setting the scene for a first date between '' @ display_name user_a @ '' and '' @ display_name user_b @ ''.\<newline>'' @
     ''\<newline>'' @
     ''Generate a 2-4 sentence scene description. Choose a setting (restaurant, coffee shop, park, art gallery, etc.) that feels natural for a first date. Be specific and atmospheric.\<newline>'' @
     ''\<newline>'' @
     ''Return ONLY the scene description, no extra commentary.\<newline>''"

definition test_moment_prompt :: "string" where
  "test_moment_prompt =
     ''Generate a brief test moment for a first date. This should be a minor awkward or challenging situation that reveals how people handle discomfort.\<newline>'' @
     ''\<newline>'' @
     ''Examples:\<newline>'' @
     ''- [The waiter brings the wrong order]\<newline>'' @
     ''- [An awkward joke lands badly]\<newline>'' @
     ''- [Someone'' @ [CHR 0x27] @ ''s phone rings with an urgent call]\<newline>'' @
     ''- [A minor disagreement about the menu]\<newline>'' @
     ''\<newline>'' @
     ''Return ONLY the bracketed stage direction, keep it under 15 words.\<newline>''"

definition system_prompt :: "pylib \<Rightarrow> user \<Rightarrow> pyval \<Rightarrow> string \<Rightarrow> string \<Rightarrow> string" where
  "system_prompt L current_user current_intake scene running =
     ''You are roleplaying as '' @ display_name current_user @ '' on a first date.\<newline>'' @
     ''\<newline>'' @
     ''Your profile:\<newline>'' @
     ''- Bio: '' @ bio current_user @ ''\<newline>'' @
     ''- Traits: '' @ str_join '', '' (traits current_user) @ ''\<newline>'' @
     ''- Boundaries: '' @ str_join '', '' (boundaries current_user) @ ''\<newline>'' @
     ''\<newline>'' @
     ''Your intake summary:\<newline>'' @
     json_dumps_indent2 L current_intake @ ''\<newline>'' @
     ''\<newline>'' @
     ''Scene:\<newline>'' @
     scene @ ''\<newline>'' @
     ''\<newline>'' @
     ''Conversation so far:\<newline>'' @
     running @ ''\<newline>'' @
     ''\<newline>'' @
     ''Stay in character. Keep your response natural and conversational (2-4 sentences max).\<newline>''"

definition notes_prompt :: "user \<Rightarrow> user \<Rightarrow> string \<Rightarrow> string \<Rightarrow> string" where
  "notes_prompt user_a user_b scene transcript_text =
     ''You observed this first date exchange between '' @ display_name user_a @ '' and '' @ display_name user_b @ ''.\<newline>'' @
     ''\<newline>'' @
     ''Scene: '' @ scene @ ''\<newline>'' @
     ''\<newline>'' @
     ''Transcript:\<newline>'' @
     transcript_text @ ''\<newline>'' @
     ''\<newline>'' @
     ''Write 3 concise bullet-point observations about their interaction. Focus on:\<newline>'' @
     ''- How they handled the test moment\<newline>'' @
     ''- Communication styles and compatibility\<newline>'' @
     ''- Red flags or green flags\<newline>'' @
     ''\<newline>'' @
     ''Return ONLY the 3 bullets, no extra commentary.\<newline>''"

definition delta_prompt :: "pylib \<Rightarrow> user \<Rightarrow> user \<Rightarrow> pyval \<Rightarrow> pyval \<Rightarrow> string \<Rightarrow> string \<Rightarrow> string \<Rightarrow> string" where
  "delta_prompt L user_a user_b intake_a intake_b scene transcript_text notes_text =
     ''You are the neutral evaluator. Produce a short \"delta insight\" connecting intake expectations to observed behavior.\<newline>'' @
     ''\<newline>'' @
     ''Scene:\<newline>'' @
     scene @ ''\<newline>'' @
     ''\<newline>'' @
     ''Intake A ('' @ display_name user_a @ ''):\<newline>'' @
     json_dumps_indent2 L intake_a @ ''\<newline>'' @
     ''\<newline>'' @
     ''Intake B ('' @ display_name user_b @ ''):\<newline>'' @
     json_dumps_indent2 L intake_b @ ''\<newline>'' @
     ''\<newline>'' @
     ''Observed transcript:\<newline>'' @
     transcript_text @ ''\<newline>'' @
     ''\<newline>'' @
     ''Evaluator notes:\<newline>'' @
     notes_text @ ''\<newline>'' @
     ''\<newline>'' @
     ''Return EXACTLY this structure (plain text, no markdown):\<newline>'' @
     ''\<newline>'' @
     ''A_DELTA: <1 sentence: one intake expectation vs one observed behavior>\<newline>'' @
     ''B_DELTA: <1 sentence: one intake expectation vs one observed behavior>\<newline>'' @
     ''SHARED_SIGNAL: <1 sentence: what the interaction suggests about compatibility>\<newline>'' @
     ''\<newline>'' @
     ''Rules:\<newline>'' @
     ''- Reference at least one concrete behavior from the transcript in each DELTA.\<newline>'' @
     ''- Keep each line under ~180 characters.\<newline>''"

definition reflection_prompt :: "pylib \<Rightarrow> user \<Rightarrow> user \<Rightarrow> pyval \<Rightarrow> string \<Rightarrow> string \<Rightarrow> string" where
  "reflection_prompt L self_user other_user self_intake scene transcript_text =
     ''You are the MatchmakerAgent advocating for '' @ display_name self_user @ ''.\<newline>'' @
     ''\<newline>'' @
     ''Their intake summary (what they want / avoid):\<newline>'' @
     json_dumps_indent2 L self_intake @ ''\<newline>'' @
     ''\<newline>'' @
     ''They just went on a simulated first date with '' @ display_name other_user @ ''.\<newline>'' @
     ''\<newline>'' @
     ''Scene:\<newline>'' @
     scene @ ''\<newline>'' @
     ''\<newline>'' @
     ''Transcript:\<newline>'' @
     transcript_text @ ''\<newline>'' @
     ''\<newline>'' @
     ''Write a short advocate reflection with EXACTLY this structure (plain text, no markdown):\<newline>'' @
     ''\<newline>'' @
     ''GREEN_FLAGS:\<newline>'' @
     ''- <bullet 1 grounded in transcript>\<newline>'' @
     ''- <bullet 2 grounded in transcript>\<newline>'' @
     ''\<newline>'' @
     ''CONCERNS:\<newline>'' @
     ''- <bullet 1 grounded in transcript and tied to a dealbreaker or boundary>\<newline>'' @
     ''- <bullet 2 grounded in transcript and tied to a preference mismatch>\<newline>'' @
     ''\<newline>'' @
     ''NEXT_QUESTION:\<newline>'' @
     ''<one follow-up question you would ask '' @ display_name self_user @ '' in a real intake>\<newline>'' @
     ''\<newline>'' @
     ''Rules:\<newline>'' @
     ''- Keep bullets crisp and specific.\<newline>'' @
     ''- Cite at least one direct behavior or line from the transcript in GREEN_FLAGS and CONCERNS.\<newline>''"

definition bracketed :: "string \<Rightarrow> string" where
  \<comment> \<open>the test moment, put into square brackets unless it starts with one\<close>
  "bracketed test_moment =
     (if \<not> startswith test_moment ''['' then ''['' @ test_moment @ '']'' else test_moment)"

definition user_prompt :: "string \<Rightarrow> nat \<Rightarrow> string" where
  "user_prompt test_moment n =
     (if n = 2 then test_moment @ ''\<newline>Respond naturally to what just happened.''
      else ''Continue the conversation naturally.'')"

fun conversation ::
  "pylib \<Rightarrow> provider \<Rightarrow> user \<Rightarrow> user \<Rightarrow> pyval \<Rightarrow> pyval \<Rightarrow> string \<Rightarrow> string \<Rightarrow>
   nat list \<Rightarrow> turn list \<times> string \<Rightarrow> (turn list \<times> string) action" where
  \<comment> \<open>the for loop over the turns; the pair is \<open>transcript\<close> and \<open>running\<close>\<close>
  "conversation L P user_a user_b intake_a intake_b scn test_moment [] acc = ok acc"
| "conversation L P user_a user_b intake_a intake_b scn test_moment (n # ns) acc =
     (let is_user_a = (n mod 2 = 0);
          current_user = (if is_user_a then user_a else user_b);
          current_intake = (if is_user_a then intake_a else intake_b);
          speaker_label = (if is_user_a then ''A'' else ''B'')
      in and_then
           (chat P (TurnCall n)
              \<lparr>messages =
                 [\<lparr>role = ''system'',
                   content = system_prompt L current_user current_intake scn (snd acc)\<rparr>,
                  \<lparr>role = ''user'', content = user_prompt test_moment n\<rparr>],
               temperature = 0.7\<rparr>)
           (\<lambda>response.
              conversation L P user_a user_b intake_a intake_b scn test_moment ns
                (fst acc @ [\<lparr>speaker = speaker_label, name = display_name current_user,
                             turn_text = strip response\<rparr>],
                 snd acc @ display_name current_user @ '': '' @ strip response @ ''\<newline>'')))"

definition notes_of :: "string \<Rightarrow> string list" where
  \<comment> \<open>the first three lines of the reply that are neither blank nor headings, without
      the list markers (bullet, hyphen, asterisk) that \<open>lstrip\<close> removes\<close>
  "notes_of notes_response =
     py_upto
       (map (\<lambda>line. strip (lstrip_chars (strip line) (bullet @ ''-*'')))
          (filter (\<lambda>line. strip line \<noteq> [] \<and> \<not> startswith (strip line) ''#'')
             (split_nl (strip notes_response))))
       3"

definition generate_delta_insight ::
  "pylib \<Rightarrow> provider \<Rightarrow> user \<Rightarrow> user \<Rightarrow> pyval \<Rightarrow> pyval \<Rightarrow> string \<Rightarrow> string \<Rightarrow>
   string list \<Rightarrow> string action" where
  "generate_delta_insight L P user_a user_b intake_a intake_b scn transcript_text notes =
     (let joined = str_join ''\<newline>'' (map (\<lambda>n. ''- '' @ n) notes);
          notes_text = (if joined \<noteq> [] then joined else ''- (no notes)'')
      in try_except
           (and_then
              (chat P DeltaInsightCall
                 \<lparr>messages = [user_message
                                (delta_prompt L user_a user_b intake_a intake_b scn
                                   transcript_text notes_text)],
                  temperature = 0.5\<rparr>)
              (\<lambda>out. ok (strip out)))
           (ok []))"

definition write_matchmaker_reflection ::
  "pylib \<Rightarrow> provider \<Rightarrow> string option \<Rightarrow> user \<Rightarrow> user \<Rightarrow> pyval \<Rightarrow> string \<Rightarrow> string \<Rightarrow>
   real \<Rightarrow> string action" where
  "write_matchmaker_reflection L P agent self_user other_user self_intake scn transcript_text ts =
     (case agent of
        None \<Rightarrow> ok []
      | Some a \<Rightarrow>
          try_except
            (and_then
               (chat P ReflectionCall
                  \<lparr>messages = [user_message
                                 (reflection_prompt L self_user other_user self_intake scn
                                    transcript_text)],
                   temperature = 0.6\<rparr>)
               (\<lambda>reflection w.
                  (Inr (strip reflection),
                   agent_write a
                     (''Matchmaker reflection after date with '' @ display_name other_user
                        @ '':\<newline>'' @ strip reflection)
                     [(''type'', PStr ''matchmaker_reflection''),
                      (''partner_user_id'', PStr (user_id other_user)),
                      (''timestamp'', PFloat ts)]
                     w)))
            (ok []))"

definition pair_ids :: "user \<Rightarrow> user \<Rightarrow> real \<Rightarrow> pydict" where
  \<comment> \<open>the three metadata keys that the evaluator's own entries share\<close>
  "pair_ids user_a user_b ts =
     [(''user_a_id'', PStr (user_id user_a)), (''user_b_id'', PStr (user_id user_b)),
      (''timestamp'', PFloat ts)]"

definition store_exchange ::
  "string option \<Rightarrow> string option \<Rightarrow> user \<Rightarrow> user \<Rightarrow> string \<Rightarrow> string \<Rightarrow> string list \<Rightarrow>
   string \<Rightarrow> real \<Rightarrow> world \<Rightarrow> world" where
  \<comment> \<open>the memory writes between the delta insight and the reflections, in their order\<close>
  "store_exchange agent_a agent_b user_a user_b scn transcript_text notes delta ts w =
     (let w1 = (if delta \<noteq> []
                then evaluator_write
                       (''Delta insight: '' @ display_name user_a @ '' '' @ [CHR 0xD7] @ '' ''
                          @ display_name user_b @ ''\<newline>'' @ delta)
                       ((''type'', PStr ''date_delta_insight'') # pair_ids user_a user_b ts) w
                else w);
          w2 = (case agent_a of
                  None \<Rightarrow> w1
                | Some a \<Rightarrow>
                    agent_write a
                      (''Date exchange with '' @ display_name user_b @ '':\<newline>'' @ scn
                         @ ''\<newline>\<newline>'' @ transcript_text)
                      [(''type'', PStr ''date_exchange''),
                       (''partner_user_id'', PStr (user_id user_b)),
                       (''timestamp'', PFloat ts)] w1);
          w3 = (case agent_b of
                  None \<Rightarrow> w2
                | Some b \<Rightarrow>
                    agent_write b
                      (''Date exchange with '' @ display_name user_a @ '':\<newline>'' @ scn
                         @ ''\<newline>\<newline>'' @ transcript_text)
                      [(''type'', PStr ''date_exchange''),
                       (''partner_user_id'', PStr (user_id user_a)),
                       (''timestamp'', PFloat ts)] w2)
      in evaluator_write
           (''Date exchange: '' @ display_name user_a @ '' '' @ [CHR 0xD7] @ '' ''
              @ display_name user_b @ ''\<newline>''
              @ ''Scene: '' @ scn @ ''\<newline>''
              @ ''Transcript:\<newline>'' @ transcript_text @ ''\<newline>''
              @ ''Notes: '' @ str_join ''; '' notes)
           ((''type'', PStr ''date_exchange_eval'') # pair_ids user_a user_b ts) w3)"

definition conclude_exchange ::
  "pylib \<Rightarrow> provider \<Rightarrow> user \<Rightarrow> string option \<Rightarrow> user \<Rightarrow> string option \<Rightarrow>
   pyval \<Rightarrow> pyval \<Rightarrow> string \<Rightarrow> turn list \<Rightarrow> string list \<Rightarrow> real \<Rightarrow> string \<Rightarrow>
   date_exchange action" where
  \<comment> \<open>\<open>run_date_exchange\<close> from the delta insight on: the memory writes, the two
      reflections, the score and the result\<close>
  "conclude_exchange L P user_a agent_a user_b agent_b intake_a intake_b scn transcr notes
       ts delta w =
     and_then
       (write_matchmaker_reflection L P agent_a user_a user_b intake_a scn
          (transcript_text_of transcr) ts)
       (\<lambda>reflection_a.
          and_then
            (write_matchmaker_reflection L P agent_b user_b user_a intake_b scn
               (transcript_text_of transcr) ts)
            (\<lambda>reflection_b.
               and_then
                 (score_date_exchange L P scn transcr intake_a intake_b)
                 (\<lambda>scr w'.
                    (Inr \<lparr>ex_scene = scn, ex_transcript = transcr,
                          ex_evaluator_notes = notes, ex_delta_insight = delta,
                          ex_reflections =
                            AList.update (user_id user_b) reflection_b
                              [(user_id user_a, reflection_a)],
                          ex_score = scr\<rparr>,
                     evaluator_write
                       (''Date score: '' @ display_name user_a @ '' '' @ [CHR 0xD7] @ '' ''
                          @ display_name user_b @ ''\<newline>''
                          @ json_dumps_indent2 L (PDict scr))
                       ((''type'', PStr ''date_score'') # pair_ids user_a user_b ts) w'))))
       (store_exchange agent_a agent_b user_a user_b scn (transcript_text_of transcr) notes
          delta ts w)"

definition run_date_exchange ::
  "pylib \<Rightarrow> provider \<Rightarrow> user \<Rightarrow> string option \<Rightarrow> user \<Rightarrow> string option \<Rightarrow>
   date_exchange action" where
  "run_date_exchange L P user_a agent_a user_b agent_b w0 =
     (let intake_a = extract_intake_summary L agent_a w0;
          intake_b = extract_intake_summary L agent_b w0
      in and_then
           (chat P SceneCall
              \<lparr>messages = [user_message (scene_prompt user_a user_b)], temperature = 0.7\<rparr>)
           (\<lambda>scene_reply.
              and_then
                (chat P TestMomentCall
                   \<lparr>messages = [user_message test_moment_prompt], temperature = 0.8\<rparr>)
                (\<lambda>moment_reply.
                   and_then
                     (conversation L P user_a user_b intake_a intake_b (strip scene_reply)
                        (bracketed (strip moment_reply)) [0..<6] ([], []))
                     (\<lambda>acc.
                        and_then
                          (chat P NotesCall
                             \<lparr>messages =
                                [user_message
                                   (notes_prompt user_a user_b (strip scene_reply)
                                      (transcript_text_of (fst acc)))],
                              temperature = 0.6\<rparr>)
                          (\<lambda>notes_response w.
                             and_then
                               (generate_delta_insight L P user_a user_b intake_a intake_b
                                  (strip scene_reply) (transcript_text_of (fst acc))
                                  (notes_of notes_response))
                               (conclude_exchange L P user_a agent_a user_b agent_b
                                  intake_a intake_b (strip scene_reply) (fst acc)
                                  (notes_of notes_response) (now w))
                               w))))
           w0)"






section \<open>The pipeline endpoint (app/main.py)\<close>






section \<open>The live intake (app/intake_live.py)\<close>

definition FALLBACK_QUESTIONS :: "string list" where
  "FALLBACK_QUESTIONS =
     [''How do you like to handle conflict or tension when it comes up with a partner?'',
      ''What are your biggest dealbreakers or red flags in dating?'',
      ''What does a great week in a relationship look like for you (time together vs. alone, routines, etc.)?'',
      ''What kind of emotional support do you like to give and receive?'']"

definition first_question :: string where
  "first_question =
     ''What matters most to you in a romantic relationship, and how would you describe your ideal relationship dynamic?''"

record started =
  started_session_id :: string
  started_question :: string
  started_step_index :: int

definition start_session :: "string \<Rightarrow> string \<Rightarrow> world \<Rightarrow> started \<times> world" where
  \<comment> \<open>the first argument is the id that \<open>uuid4()\<close> draws\<close>
  "start_session new_id uid w =
     (\<lparr>started_session_id = new_id, started_question = first_question,
       started_step_index = 0\<rparr>,
      w\<lparr>sessions := (sessions w)
           (new_id \<mapsto>
              \<lparr>session_id = new_id, session_user_id = uid, step_index = 0,
               questions = [first_question], answers = [], created_at = now w,
               is_complete = False\<rparr>)\<rparr>)"

definition py_index :: "'a list \<Rightarrow> int \<Rightarrow> error + 'a" where
  \<comment> \<open>\<open>xs[i]\<close>: from the front for \<open>i \<ge> 0\<close>, from the back for \<open>i < 0\<close>, and
      IndexError outside the list\<close>
  "py_index xs i =
     (if 0 \<le> i \<and> i < int (length xs) then Inr (xs ! nat i)
      else if i < 0 \<and> - i \<le> int (length xs) then Inr (xs ! nat (int (length xs) + i))
      else Inl IndexError)"

definition next_question_prompt :: "pylib \<Rightarrow> int \<Rightarrow> string \<Rightarrow> string \<Rightarrow> string" where
  \<comment> \<open>\<open>next_index\<close> is the parameter \<open>step_index\<close> of \<open>_generate_next_question\<close>\<close>
  "next_question_prompt L next_index prev_question prev_answer =
     ''You are conducting a dating intake interview. Generate the next question (question #'' @ py_str L (PInt (next_index + 1)) @ '' of 5).\<newline>'' @
     ''\<newline>'' @
     ''Previous question: '' @ prev_question @ ''\<newline>'' @
     ''Their answer: '' @ prev_answer @ ''\<newline>'' @
     ''\<newline>'' @
     ''Generate a follow-up question that:\<newline>'' @
     ''1) References their previous answer in ONE sentence (adaptive feel)\<newline>'' @
     ''2) Stays short and conversational\<newline>'' @
     ''3) Explores a different aspect of dating/relationships (values, communication style, deal-breakers, lifestyle compatibility, emotional needs)\<newline>'' @
     ''4) Is open-ended and encourages thoughtful response\<newline>'' @
     ''\<newline>'' @
     ''Return ONLY the question text, no extra commentary.\<newline>''"

definition generate_next_question ::
  "pylib \<Rightarrow> provider \<Rightarrow> string list \<Rightarrow> string list \<Rightarrow> int \<Rightarrow> string action" where
  "generate_next_question L P qs as next_index w =
     (case py_index qs (-1) of
        Inl e \<Rightarrow> (Inl e, w)
      | Inr prev_question \<Rightarrow>
     (case py_index as (-1) of
        Inl e \<Rightarrow> (Inl e, w)
      | Inr prev_answer \<Rightarrow>
          and_then (OpenRouterClient P)
            (\<lambda>client w1.
               case chat P NextQuestionCall
                      \<lparr>messages = [user_message
                                     (next_question_prompt L next_index prev_question
                                        prev_answer)],
                       temperature = 0.6\<rparr> w1 of
                 (reply, w2) \<Rightarrow>
                   (case reply of
                      Inr next_question \<Rightarrow>
                        if strip next_question \<noteq> [] then (Inr (strip next_question), w2)
                        else (py_index FALLBACK_QUESTIONS
                                (max 0 (min (next_index - 1)
                                          (int (length FALLBACK_QUESTIONS) - 1))), w2)
                    | Inl e \<Rightarrow>
                        (py_index FALLBACK_QUESTIONS
                           (max 0 (min (next_index - 1)
                                     (int (length FALLBACK_QUESTIONS) - 1))), w2)))
            w))"

record answered =
  ans_session_id :: string
  ans_question :: "string option"
  ans_step_index :: int
  ans_is_complete :: bool
  ans_final_summary :: "pydict option"

definition put_session :: "string \<Rightarrow> session \<Rightarrow> world \<Rightarrow> world" where
  \<comment> \<open>the session object is mutated in place: its new value is what \<open>_sessions\<close> holds\<close>
  "put_session sid s w = w\<lparr>sessions := (sessions w)(sid \<mapsto> s)\<rparr>"

definition qa_context :: "pylib \<Rightarrow> string list \<Rightarrow> string list \<Rightarrow> string" where
  \<comment> \<open>\<open>extra_context\<close>: the numbered question and answer pairs, a blank line between\<close>
  "qa_context L qs as =
     str_join ''\<newline>\<newline>''
       (map (\<lambda>(i, q, a).
               ''Q'' @ py_str L (PInt (int i)) @ '': '' @ q @ ''\<newline>A''
                 @ py_str L (PInt (int i)) @ '': '' @ a)
          (zip [1..<Suc (min (length qs) (length as))] (zip qs as)))"

definition no_agent_summary :: pydict where
  "no_agent_summary =
     [(''preferences'', PList []), (''dealbreakers'', PList []),
      (''dating_thesis'', PStr ''No agent available for this user.'')]"

definition submit_answer :: "pylib \<Rightarrow> provider \<Rightarrow> string \<Rightarrow> string \<Rightarrow> answered action" where
  "submit_answer L P sid answer_text w =
     (case sessions w sid of
        None \<Rightarrow> (Inl (ValueError (''Session '' @ sid @ '' not found'')), w)
      | Some s0 \<Rightarrow>
          if is_complete s0
          then (Inl (ValueError (''Session '' @ sid @ '' is already complete'')), w)
          else
            (let s1 = s0\<lparr>answers := answers s0 @ [answer_text]\<rparr>;
                 w1 = put_session sid s1 w;
                 agent = get_matchmaker w1 (session_user_id s1)
             in case py_index (questions s1) (step_index s1) of
                  Inl e \<Rightarrow> (Inl e, w1)
                | Inr current_question \<Rightarrow>
                    (let w2 = (case agent of
                                 None \<Rightarrow> w1
                               | Some a \<Rightarrow>
                                   agent_write a
                                     (''Q: '' @ current_question @ ''\<newline>A: '' @ answer_text)
                                     [(''type'', PStr ''intake_live''),
                                      (''session_id'', PStr sid),
                                      (''step_index'', PInt (step_index s1)),
                                      (''timestamp'', PFloat (now w1))]
                                     w1);
                         s2 = s1\<lparr>step_index := step_index s1 + 1\<rparr>
                     in if step_index s2 \<ge> 5
                        then
                          (let s3 = s2\<lparr>is_complete := True\<rparr>;
                               w3 = put_session sid s3 w2
                           in and_then
                                (case agent of
                                   None \<Rightarrow> ok no_agent_summary
                                 | Some a \<Rightarrow>
                                     and_then (OpenRouterClient P)
                                       (\<lambda>client.
                                          run_intake_summary L P a
                                            (Some (qa_context L (questions s3) (answers s3)))))
                                (\<lambda>final_summary.
                                   ok \<lparr>ans_session_id = sid, ans_question = None,
                                       ans_step_index = step_index s3,
                                       ans_is_complete = True,
                                       ans_final_summary = Some final_summary\<rparr>)
                                w3)
                        else
                          and_then
                            (generate_next_question L P (questions s2) (answers s2)
                               (step_index s2))
                            (\<lambda>next_question w4.
                               (Inr \<lparr>ans_session_id = sid,
                                     ans_question = Some next_question,
                                     ans_step_index = step_index s2,
                                     ans_is_complete = False,
                                     ans_final_summary = None\<rparr>,
                                put_session sid
                                  (s2\<lparr>questions := questions s2 @ [next_question]\<rparr>) w4))
                            (put_session sid s2 w2))))"

section \<open>The demo users and the process at startup (app/users.py, app/registry.py)\<close>

definition user_001 :: user where
  "user_001 =
     \<lparr>user_id = ''user_001'',
      display_name = ''Jordan'',
      bio = ''Software engineer who values direct communication and emotional honesty. Loves hiking, board games, and deep conversations over coffee.'',
      traits = [''Direct communicator'',
                ''Values clarity and honesty'',
                ''Introverted but warm'',
                ''Analytical thinker'',
                ''Loyal and committed'',
                ''Enjoys structured plans''],
      boundaries = [''No public embarrassment or being put on the spot'',
                    ''Needs alone time to recharge'',
                    ''Prefers addressing conflicts directly rather than avoiding them''],
      user_notes = ''Partner-inspired profile with direct conflict style and sensitivity to public embarrassment''\<rparr>"

definition user_002 :: user where
  "user_002 =
     \<lparr>user_id = ''user_002'',
      display_name = ''Alex'',
      bio = ''Creative designer who loves spontaneity and adventure. Enjoys live music, trying new restaurants, and weekend road trips.'',
      traits = [''Spontaneous and adventurous'',
                ''Emotionally expressive'',
                ''Extroverted and social'',
                ''Creative problem solver'',
                ''Optimistic outlook'',
                ''Loves surprises and novelty''],
      boundaries = [''Needs freedom and independence'',
                    ''Dislikes rigid schedules'',
                    ''Values emotional connection over logic''],
      user_notes = ''Foil profile - surface compatible with Jordan but fails in simulation due to conflict avoidance vs. directness mismatch''\<rparr>"

definition user_003 :: user where
  "user_003 =
     \<lparr>user_id = ''user_003'',
      display_name = ''Sam'',
      bio = ''Therapist who brings empathy and patience to relationships. Enjoys reading, yoga, and meaningful one-on-one time.'',
      traits = [''Empathetic listener'',
                ''Patient and understanding'',
                ''Values emotional intelligence'',
                ''Calm under pressure'',
                ''Enjoys deep connections'',
                ''Thoughtful and reflective''],
      boundaries = [''No passive-aggressive behavior'',
                    ''Needs emotional reciprocity'',
                    ''Values vulnerability and openness''],
      user_notes = ''Potentially strong match with Jordan - both value directness and emotional honesty''\<rparr>"

definition get_demo_users :: "user list" where
  "get_demo_users = [user_001, user_002, user_003]"

definition unknown_user :: "string \<Rightarrow> user" where
  "unknown_user uid =
     \<lparr>user_id = uid, display_name = [], bio = [], traits = [], boundaries = [], user_notes = []\<rparr>"

definition startup :: world where
  \<comment> \<open>the process after \<open>AgentRegistry._initialize\<close>: the demo users, an agent with an
      empty memory for each of them, no request sent, no session\<close>
  "startup =
     \<lparr>calls = [],
      matchmakers = (\<lambda>uid. MatchmakerAgent_init uid
                       (case List.find (\<lambda>u. user_id u = uid) get_demo_users of
                          Some u \<Rightarrow> u | None \<Rightarrow> unknown_user uid)),
      registry_users = get_demo_users,
      evaluator_memory = Memory_init,
      sessions = Map.empty,
      now = 0\<rparr>"

definition both_set :: "string \<rightharpoonup> string" where
  \<comment> \<open>an environment with the two variables of the client\<close>
  "both_set = [''OPENROUTER_API_KEY'' \<mapsto> ''key'', ''OPENROUTER_MODEL'' \<mapsto> ''model'']"

definition always :: "string \<Rightarrow> provider" where
  \<comment> \<open>a provider that answers every request with the same text\<close>
  "always r =
     \<lparr>respond = (\<lambda>n req. Some r), failure = (\<lambda>n req. ProviderError), environ = both_set\<rparr>"


definition intake_request :: "user \<Rightarrow> string option \<Rightarrow> chat_request" where
  "intake_request u extra_context =
     \<lparr>messages = [user_message (intake_prompt u extra_context)], temperature = 0.7\<rparr>"


section \<open>Names for the statements below\<close>

definition configured :: "provider \<Rightarrow> bool" where
  \<comment> \<open>both variables that \<open>OpenRouterClient()\<close> reads are set\<close>
  "configured P =
     (environ P ''OPENROUTER_API_KEY'' \<noteq> None \<and> environ P ''OPENROUTER_MODEL'' \<noteq> None)"

definition missing_variable :: "provider \<Rightarrow> string" where
  \<comment> \<open>the variable on which the constructor raises, when one is not set\<close>
  "missing_variable P =
     (if environ P ''OPENROUTER_API_KEY'' = None then ''OPENROUTER_API_KEY''
      else ''OPENROUTER_MODEL'')"



definition default_intake :: pydict where
  "default_intake =
     [(''preferences'', PList []), (''dealbreakers'', PList []), (''dating_thesis'', PStr [])]"




inductive reach :: "pylib \<Rightarrow> string \<Rightarrow> world \<Rightarrow> bool" for L :: pylib and sid :: string where
  started: "reach L sid (snd (start_session sid uid w))"
| answered: "reach L sid w \<Longrightarrow> submit_answer L P sid a w = (Inr r, w') \<Longrightarrow> reach L sid w'"
| elsewhere: "reach L sid w \<Longrightarrow> sessions w' sid = sessions w sid \<Longrightarrow> reach L sid w'"


text \<open>
  The requests of a run and the answers to them. A date exchange with both agents
  present sends thirteen requests, from these places in this order.
\<close>

definition exchange_sites :: "call_site list" where
  "exchange_sites =
     [SceneCall, TestMomentCall, TurnCall 0, TurnCall 1, TurnCall 2, TurnCall 3, TurnCall 4,
      TurnCall 5, NotesCall, DeltaInsightCall, ReflectionCall, ReflectionCall, ScoreCall]"

definition reply_at :: "provider \<Rightarrow> world \<Rightarrow> nat \<Rightarrow> string option" where
  \<comment> \<open>what the provider answered to the k-th request of the run\<close>
  "reply_at P w k = respond P k (snd (calls w ! k))"

definition answers_all :: "provider \<Rightarrow> bool" where
  "answers_all P = (\<forall>n req. respond P n req \<noteq> None)"

definition grows :: "world \<Rightarrow> world \<Rightarrow> bool" where
  \<comment> \<open>every memory keeps its entries, in their order, and its metadata\<close>
  "grows w w' =
     ((\<forall>a. (\<exists>es. entries (memory (matchmakers w' a)) = entries (memory (matchmakers w a)) @ es)
           \<and> metadata (memory (matchmakers w' a)) = metadata (memory (matchmakers w a))
           \<and> user_profile (matchmakers w' a) = user_profile (matchmakers w a))
      \<and> (\<exists>es. entries (evaluator_memory w') = entries (evaluator_memory w) @ es)
      \<and> metadata (evaluator_memory w') = metadata (evaluator_memory w))"

definition effect :: "world \<Rightarrow> world \<Rightarrow> (call_site \<times> chat_request) list \<Rightarrow> bool" where
  \<comment> \<open>from \<open>w\<close> to \<open>w'\<close> the requests \<open>cs\<close> were sent and memories only grew\<close>
  "effect w w' cs =
     (calls w' = calls w @ cs \<and> grows w w' \<and> registry_users w' = registry_users w
      \<and> sessions w' = sessions w \<and> now w' = now w)"

definition user_part :: "chat_request \<Rightarrow> string option" where
  \<comment> \<open>the user prompt of a request made of a system message and a user message\<close>
  "user_part req =
     (case messages req of
        [s, u] \<Rightarrow> if role s = ''system'' \<and> role u = ''user'' then Some (content u) else None
      | _ \<Rightarrow> None)"

definition refl_sites :: "string option \<Rightarrow> call_site list" where
  \<comment> \<open>a reflection is asked for only when there is an agent\<close>
  "refl_sites agent = (case agent of None \<Rightarrow> [] | Some a \<Rightarrow> [ReflectionCall])"

definition said :: "provider \<Rightarrow> nat \<Rightarrow> (call_site \<times> chat_request) list \<Rightarrow> nat \<Rightarrow> string option" where
  \<comment> \<open>the provider's answer to the i-th of the requests \<open>cs\<close>, which follow \<open>k\<close>
      earlier requests; None when that call raised\<close>
  "said P k cs i = respond P (k + i) (snd (cs ! i))"

definition said_text :: "provider \<Rightarrow> nat \<Rightarrow> (call_site \<times> chat_request) list \<Rightarrow> nat \<Rightarrow> string" where
  \<comment> \<open>that answer stripped, and the empty string for a call that raised\<close>
  "said_text P k cs i = (case said P k cs i of Some r \<Rightarrow> strip r | None \<Rightarrow> [])"

definition exchange_record ::
  "pylib \<Rightarrow> provider \<Rightarrow> user \<Rightarrow> string option \<Rightarrow> user \<Rightarrow> string option \<Rightarrow> nat \<Rightarrow>
   (call_site \<times> chat_request) list \<Rightarrow> date_exchange \<Rightarrow> bool" where
  \<comment> \<open>the requests of one date exchange in their order, and the result put together
      from the answers to them\<close>
  "exchange_record L P ua aa ub ab k cs e =
     (map fst cs =
        [SceneCall, TestMomentCall] @ map TurnCall [0..<6] @ [NotesCall, DeltaInsightCall]
        @ refl_sites aa @ refl_sites ab @ [ScoreCall]
      \<and> (\<forall>i<9. said P k cs i \<noteq> None)
      \<and> ex_scene e = said_text P k cs 0
      \<and> length (ex_transcript e) = 6
      \<and> (\<forall>i<6. speaker (ex_transcript e ! i) = (if i mod 2 = 0 then ''A'' else ''B'')
               \<and> name (ex_transcript e ! i) = display_name (if i mod 2 = 0 then ua else ub)
               \<and> turn_text (ex_transcript e ! i) = said_text P k cs (2 + i)
               \<and> user_part (snd (cs ! (2 + i))) = Some (user_prompt (bracketed (said_text P k cs 1)) i))
      \<and> ex_evaluator_notes e = notes_of (the (said P k cs 8))
      \<and> ex_delta_insight e = said_text P k cs 9
      \<and> ex_reflections e =
           AList.update (user_id ub)
             (case ab of None \<Rightarrow> []
              | Some b \<Rightarrow> said_text P k cs (10 + length (refl_sites aa)))
             [(user_id ua, case aa of None \<Rightarrow> [] | Some a \<Rightarrow> said_text P k cs 10)]
      \<and> said P k cs (length cs - 1) \<noteq> None
      \<and> ex_score e = (case parse_score L (the (said P k cs (length cs - 1))) of
                        Inr d \<Rightarrow> d | Inl err \<Rightarrow> failed_score))"


definition requests_since :: "world \<Rightarrow> world \<Rightarrow> (call_site \<times> chat_request) list" where
  \<comment> \<open>the requests sent between an earlier and a later state\<close>
  "requests_since w w' = drop (length (calls w)) (calls w')"

text \<open>
  Two runs from startup with a provider that answers \<open>{}\<close> to everything: an intake
  summary for the first demo user, and a date exchange of the first two demo users.
\<close>

definition after_intake :: world where
  "after_intake = snd (run_intake_summary small_lib (always ''{}'') ''user_001'' None startup)"

definition after_date :: world where
  "after_date =
     snd (run_date_exchange small_lib (always ''{}'') user_001 (Some ''user_001'')
            user_002 (Some ''user_002'') startup)"



section \<open>Properties of the memory store\<close>

definition matching :: "string \<Rightarrow> Memory \<Rightarrow> entry list" where
  \<comment> \<open>the entries, in insertion order, whose lowercased text contains the lowercased,
      stripped query\<close>
  "matching q M = [e \<leftarrow> entries M. contains (lower (entry_text e)) (strip (lower q))]"

definition two_notes :: Memory where
  "two_notes =
     \<lparr>entries = [\<lparr>entry_text = ''a1'', entry_metadata = []\<rparr>,
                 \<lparr>entry_text = ''a2'', entry_metadata = []\<rparr>],
      metadata = []\<rparr>"

lemma or_empty_Some [simp]: "or_empty (Some d) = d"
  by (simp add: or_empty_def)

lemma or_empty_None [simp]: "or_empty None = []"
  by (simp add: or_empty_def)

lemma search_metadata_store [simp]: "snd (search_metadata key v k M) = M"
  by (simp add: search_metadata_def)

lemma search_store [simp]: "snd (search q k M) = M"
  by (simp add: search_def Let_def)

lemma search_hits: "fst (search q k M) = py_upto (matching q M) k"
  by (simp add: search_def matching_def Let_def)

text \<open>
  C8, as amended. \<open>Memory.search(q, k)\<close> leaves the store as it was. For a bound
  \<open>k \<ge> 0\<close> it returns the first \<open>min(k, m)\<close> of the \<open>m\<close> matching entries, in
  insertion order; for \<open>k < 0\<close> the slice \<open>hits[:k]\<close> drops the last \<open>-k\<close>
  matching entries instead, so it returns the first \<open>max(m + k, 0)\<close>.
\<close>

theorem search_first_hits:
  "search q k M =
     (take (if 0 \<le> k then min (nat k) (length (matching q M))
            else length (matching q M) - nat (- k))
        (matching q M), M)"
proof -
  have "norm_index (length (matching q M)) k =
        (if 0 \<le> k then min (nat k) (length (matching q M))
         else length (matching q M) - nat (- k))"
    by (auto simp: norm_index_def)
  then show ?thesis
    using search_hits [of q k M] search_store [of q k M]
    by (simp add: py_upto_def prod_eq_iff)
qed

text \<open>
  C8 as stated fails for a negative bound: with two matching entries and \<open>k = -1\<close>
  the search returns one entry, not the first \<open>min(k, m)\<close>, which is none.
\<close>

theorem search_negative_bound_counterexample:
  "fst (search ''a'' (- 1) two_notes)
     \<noteq> take (nat (min (- 1) (int (length (matching ''a'' two_notes)))))
         (matching ''a'' two_notes)"
  by (simp add: search_def matching_def two_notes_def py_upto_def norm_index_def Let_def
      lower_def lower_char_def strip_def lstrip_def rstrip_def isspace_def startswith_def)

text \<open>
  C9. The store is append-only apart from \<open>clear\<close>: \<open>write\<close> puts exactly one entry
  with the given text and metadata (the empty dict for None) after the existing
  entries, and \<open>search\<close>, \<open>search_metadata\<close>, \<open>latest_by_type\<close>, \<open>all\<close>,
  \<open>set_metadata\<close> and \<open>get_metadata\<close> leave the list of entries as it was.
\<close>

theorem memory_append_only:
  "entries (snd (Memory_write txt md M)) =
     entries M @ [\<lparr>entry_text = txt,
                    entry_metadata = (case md of None \<Rightarrow> [] | Some d \<Rightarrow> d)\<rparr>]
   \<and> entries (snd (search q k M)) = entries M
   \<and> entries (snd (search_metadata key v k M)) = entries M
   \<and> entries (snd (latest_by_type ty M)) = entries M
   \<and> entries (snd (all_entries M)) = entries M
   \<and> entries (snd (set_metadata key v M)) = entries M
   \<and> entries (snd (get_metadata key v M)) = entries M"
  by (simp add: Memory_write_def latest_by_type_def all_entries_def set_metadata_def
      get_metadata_def search_metadata_def split: option.split)

section \<open>Properties of extract_json\<close>

lemma find_str_char:
  "find_str s [c] = (if c \<in> set s then int (length (takeWhile (\<lambda>x. x \<noteq> c) s)) else -1)"
  by (induction s) (auto simp: startswith_def Let_def)

lemma takeWhile_short:
  "c \<in> set s \<Longrightarrow> length (takeWhile (\<lambda>x. x \<noteq> c) s) < length s"
  by (induction s) auto

lemma rfind_char:
  "rfind s [c] = (if c \<in> set s then int (length s) - 1 - int (length (takeWhile (\<lambda>x. x \<noteq> c) (rev s))) else -1)"
proof (induction s)
  case Nil then show ?case by simp
next
  case (Cons a s)
  show ?case
  proof (cases "c \<in> set s")
    case True
    then have "takeWhile (\<lambda>x. x \<noteq> c) (rev s @ [a]) = takeWhile (\<lambda>x. x \<noteq> c) (rev s)"
      by (simp add: takeWhile_append1)
    moreover have "length (takeWhile (\<lambda>x. x \<noteq> c) (rev s)) < length s"
      using takeWhile_short [of c "rev s"] True by simp
    ultimately show ?thesis using Cons True by (simp add: Let_def)
  next
    case False
    then have tw: "takeWhile (\<lambda>x. x \<noteq> c) (rev s @ [a]) = rev s @ takeWhile (\<lambda>x. x \<noteq> c) [a]"
      by (intro takeWhile_append2) auto
    show ?thesis
    proof (cases "a = c")
      case True
      then show ?thesis using Cons False tw by (simp add: Let_def startswith_def)
    next
      case ne: False
      then show ?thesis using Cons False by (simp add: Let_def startswith_def)
    qed
  qed
qed

lemma rev_dropWhile_rev:
  "rev (dropWhile P (rev xs)) = take (length xs - length (takeWhile P (rev xs))) xs"
proof -
  have "xs = rev (dropWhile P (rev xs)) @ rev (takeWhile P (rev xs))"
    by (metis rev_append rev_rev_ident takeWhile_dropWhile_id)
  then have "take (length (rev (dropWhile P (rev xs)))) xs = rev (dropWhile P (rev xs))"
    by (metis append_eq_conv_conj)
  moreover have "length (rev (dropWhile P (rev xs))) = length xs - length (takeWhile P (rev xs))"
    by (metis add_diff_cancel_left' length_append length_rev takeWhile_dropWhile_id)
  ultimately show ?thesis by simp
qed

lemma braced_slice:
  "(let start = find_str t ''{''; end = rfind t ''}''
    in if start \<noteq> -1 \<and> end \<noteq> -1 \<and> end > start
       then Some (py_slice t start (end + 1)) else None)
   = braced t"
proof (cases "CHR ''{'' \<in> set t")
  case False
  then show ?thesis by (simp add: find_str_char braced_def Let_def)
next
  case True
  define p where "p = takeWhile (\<lambda>c. c \<noteq> CHR ''{'') t"
  define fo where "fo = dropWhile (\<lambda>c. c \<noteq> CHR ''{'') t"
  have t: "t = p @ fo" by (simp add: p_def fo_def)
  have ne: "fo \<noteq> []"
    using True by (auto simp: fo_def dropWhile_eq_Nil_conv)
  then have "hd fo = CHR ''{''"
    using hd_dropWhile [of "\<lambda>c. c \<noteq> CHR ''{''" t] by (simp add: fo_def)
  with ne obtain rest where fo: "fo = CHR ''{'' # rest"
    by (cases fo) auto
  have start: "find_str t ''{'' = int (length p)"
    using True by (simp add: find_str_char p_def)
  show ?thesis
  proof (cases "CHR ''}'' \<in> set rest")
    case in_rest: True
    let ?q = "length (takeWhile (\<lambda>x. x \<noteq> CHR ''}'') (rev rest))"
    have q: "?q < length rest" using takeWhile_short [of "CHR ''}''" "rev rest"] in_rest by simp
    have tw: "takeWhile (\<lambda>x. x \<noteq> CHR ''}'') (rev t) = takeWhile (\<lambda>x. x \<noteq> CHR ''}'') (rev rest)"
      using in_rest by (simp add: t fo takeWhile_append1)
    have tw2: "takeWhile (\<lambda>x. x \<noteq> CHR ''}'') (rev fo) = takeWhile (\<lambda>x. x \<noteq> CHR ''}'') (rev rest)"
      using in_rest by (simp add: fo takeWhile_append1)
    have "CHR ''}'' \<in> set t" using in_rest by (simp add: t fo)
    then have e: "rfind t ''}'' = int (length t) - 1 - int ?q"
      by (simp add: rfind_char tw)
    have lt: "length t = length p + 1 + length rest" by (simp add: t fo)
    have lf: "length fo = 1 + length rest" by (simp add: fo)
    have hi: "int (length t) - 1 - int ?q + 1 = int (length t - ?q)"
      using q lt by simp
    have i: "norm_index (length t) (int (length p)) = length p"
      using lt by (simp add: norm_index_def)
    have j: "norm_index (length t) (int (length t - ?q)) = length t - ?q"
      by (simp add: norm_index_def)
    have "py_slice t (int (length p)) (int (length t) - 1 - int ?q + 1)
          = take (length t - ?q - length p) (drop (length p) t)"
      unfolding hi py_slice_def Let_def i j ..
    also have "drop (length p) t = fo" by (simp add: t)
    also have "length t - ?q - length p = length fo - ?q"
      using q lt lf by simp
    finally have "py_slice t (int (length p)) (int (length t) - 1 - int ?q + 1) = take (length fo - ?q) fo" .
    also have "\<dots> = rev (dropWhile (\<lambda>c. c \<noteq> CHR ''}'') (rev fo))"
      by (simp only: rev_dropWhile_rev tw2)
    finally show ?thesis
      using True in_rest q lt start e
      by (simp add: braced_def Let_def fo_def [symmetric] fo)
  next
    case not_in: False
    show ?thesis
    proof (cases "CHR ''}'' \<in> set t")
      case False
      then show ?thesis using not_in True
        by (simp add: rfind_char braced_def Let_def fo_def [symmetric] fo)
    next
      case in_t: True
      have "takeWhile (\<lambda>x. x \<noteq> CHR ''}'') (rev rest @ (CHR ''{'' # rev p))
            = rev rest @ takeWhile (\<lambda>x. x \<noteq> CHR ''}'') (CHR ''{'' # rev p)"
        using not_in by (intro takeWhile_append2) auto
      then have "takeWhile (\<lambda>x. x \<noteq> CHR ''}'') (rev t) = rev rest @ CHR ''{'' # takeWhile (\<lambda>x. x \<noteq> CHR ''}'') (rev p)"
        by (simp add: t fo)
      then have "length (takeWhile (\<lambda>x. x \<noteq> CHR ''}'') (rev t)) \<ge> length rest + 1" by simp
      moreover have "length t = length p + 1 + length rest" by (simp add: t fo)
      ultimately have "rfind t ''}'' \<le> find_str t ''{''"
        using in_t start by (simp add: rfind_char)
      then show ?thesis using not_in True
        by (simp add: braced_def Let_def fo_def [symmetric] fo)
    qed
  qed
qed

lemma braces_eq:
  "(let start = find_str t ''{''; end = rfind t ''}''
    in if start \<noteq> -1 \<and> end \<noteq> -1 \<and> end > start then py_slice t start (end + 1) else t)
   = outer_braces t"
  unfolding outer_braces_def braced_slice [of t, symmetric] by (simp add: Let_def)

lemma py_but_last_butlast: "py_but_last xs = butlast xs"
  by (cases xs) (simp_all add: py_but_last_def py_upto_def norm_index_def butlast_conv_take)

lemma extract_json_text_amended: "extract_json_text t = amended_slice t"
proof -
  define ls where "ls = drop 1 (splitlines (strip t))"
  have first: "(if splitlines (strip t) \<noteq> [] then py_but_first (splitlines (strip t))
                else splitlines (strip t)) = ls"
    by (simp add: ls_def py_but_first_def)
  have "extract_json_text t =
        outer_braces (if startswith (strip t) fence
                      then strip (str_join ''\<newline>''
                             (if ls \<noteq> [] \<and> startswith (strip (last ls)) fence
                              then butlast ls else ls))
                      else strip t)"
    unfolding extract_json_text_def Let_def first py_but_last_butlast
    by (rule braces_eq [unfolded Let_def])
  also have "\<dots> = amended_slice t"
    by (simp add: amended_slice_def drop_fence_lines_def Let_def ls_def)
  finally show ?thesis .
qed

text \<open>
  C7, as amended. \<open>extract_json(t)\<close> is \<open>json.loads\<close> of this slice of \<open>t\<close>:
  strip; if the result starts with a code fence, drop its first line and, when the
  last remaining line, stripped of whitespace, starts with a fence, drop that line
  too, join with newlines and strip again; then take the text from the first opening
  brace through the last closing brace when that closing brace comes after the
  opening one, and the whole text otherwise. It raises exactly when \<open>json.loads\<close>
  rejects that slice.
\<close>

theorem extract_json_is_loads_of_slice:
  "extract_json L t =
     (case json_loads L (amended_slice t) of None \<Rightarrow> Inl JSONDecodeError | Some v \<Rightarrow> Inr v)"
  by (simp add: extract_json_def extract_json_text_amended)

text \<open>
  C7 as stated fails when the closing fence is indented: the code strips the last line
  before comparing it, so for a fence, \<open>1\<close> and an indented fence on three lines
  it decodes \<open>1\<close>, while the slice of the claim keeps the indented fence and is not
  JSON.
\<close>

theorem extract_json_fence_counterexample:
  "extract_json small_lib fenced_one
     \<noteq> (case json_loads small_lib (claimed_slice fenced_one) of
          None \<Rightarrow> Inl JSONDecodeError | Some v \<Rightarrow> Inr v)"
  by code_simp

section \<open>Properties of the agents\<close>

lemma map_of_setdefault:
  "map_of (setdefault d k v) = [k \<mapsto> v] ++ map_of d"
  by (auto simp: setdefault_def map_add_def fun_eq_iff split: option.splits)

lemma has_key_setdefault: "has_key (setdefault d k v) k' = (k' = k \<or> has_key d k')"
  by (auto simp: has_key_def map_of_setdefault map_add_def split: option.splits)

lemma and_then_Inr:
  "and_then m f w = (Inr y, w') \<longleftrightarrow> (\<exists>x w1. m w = (Inr x, w1) \<and> f x w1 = (Inr y, w'))"
  by (auto simp: and_then_def split: prod.splits sum.splits)

lemma chat_Some:
  "respond P (length (calls w)) req = Some r \<Longrightarrow>
   chat P s req w = (Inr r, w\<lparr>calls := calls w @ [(s, req)]\<rparr>)"
  by (simp add: chat_def)




lemma parse_intake_cases:
  "parse_intake L r =
     (case extract_json L r of
        Inr (PDict j) \<Rightarrow> Inr (setdefault (setdefault (setdefault j ''preferences'' (PList [])) ''dealbreakers'' (PList [])) ''dating_thesis'' (PStr []))
      | Inr _ \<Rightarrow> Inl (ValueError ''Parsed JSON is not an object'')
      | Inl e \<Rightarrow> Inl e)"
  by (simp add: parse_intake_def split: sum.splits pyval.splits)

lemma py_upto_nonneg: "0 \<le> k \<Longrightarrow> py_upto xs k = take (nat k) xs"
  by (simp add: py_upto_def norm_index_def min_def)

text \<open>
  C4. Whatever the provider answers to the intake request, \<open>run_intake_summary\<close>
  returns a dict with the keys \<open>preferences\<close>, \<open>dealbreakers\<close> and
  \<open>dating_thesis\<close>. When the answer decodes to a JSON object, missing keys are filled
  with [], [] and ""; otherwise the result is the fallback, whose thesis is the
  stripped answer cut to 240 characters. In both cases exactly one entry is appended to
  the agent's memory: its text ends with the serialized summary and its metadata has
  the type \<open>intake_summary\<close>.
\<close>

theorem run_intake_summary_result:
  assumes "respond P (length (calls w))
             (intake_request (user_profile (matchmakers w a)) extra_context) = Some r"
  shows "\<exists>d w'. run_intake_summary L P a extra_context w = (Inr d, w')
           \<and> list_all (has_key d) [''preferences'', ''dealbreakers'', ''dating_thesis'']
           \<and> (\<forall>j. extract_json L r = Inr (PDict j) \<longrightarrow> map_of d = map_of default_intake ++ map_of j)
           \<and> ((\<forall>j. extract_json L r \<noteq> Inr (PDict j)) \<longrightarrow>
                d = [(''preferences'', PList [PStr ''Unable to parse preferences'']),
                     (''dealbreakers'', PList [PStr ''Unable to parse dealbreakers'']),
                     (''dating_thesis'', PStr (take 240 (strip r)))])
           \<and> (\<exists>e. entries (memory (matchmakers w' a)) = entries (memory (matchmakers w a)) @ [e]
                  \<and> entry_text e = ''Intake summary for ''
                       @ display_name (user_profile (matchmakers w a)) @ '': ''
                       @ json_dumps L (PDict d)
                  \<and> map_of (entry_metadata e) ''type'' = Some (PStr ''intake_summary''))"
proof -
  let ?d = "case parse_intake L r of Inr d \<Rightarrow> d | Inl e \<Rightarrow> intake_fallback r"
  obtain w' where run: "run_intake_summary L P a extra_context w = (Inr ?d, w')"
    and mem: "entries (memory (matchmakers w' a)) = entries (memory (matchmakers w a)) @
        [\<lparr>entry_text = ''Intake summary for '' @ display_name (user_profile (matchmakers w a))
                        @ '': '' @ json_dumps L (PDict ?d),
          entry_metadata = [(''type'', PStr ''intake_summary''),
                            (''user_id'', PStr (agent_user_id (matchmakers w a))),
                            (''timestamp'', PFloat (now w))]\<rparr>]"
    using assms
    by (simp add: run_intake_summary_def and_then_def chat_def intake_request_def Let_def
        agent_write_def Memory_write_def)
  have keys: "list_all (has_key ?d) [''preferences'', ''dealbreakers'', ''dating_thesis'']"
    by (simp add: parse_intake_cases intake_fallback_def has_key_setdefault
        split: sum.splits pyval.splits) (simp add: has_key_def)
  have filled: "\<forall>j. extract_json L r = Inr (PDict j) \<longrightarrow> map_of ?d = map_of default_intake ++ map_of j"
    by (auto simp: parse_intake_cases map_of_setdefault default_intake_def map_add_def fun_eq_iff
        split: option.splits)
  have failed: "(\<forall>j. extract_json L r \<noteq> Inr (PDict j)) \<longrightarrow>
      ?d = [(''preferences'', PList [PStr ''Unable to parse preferences'']),
            (''dealbreakers'', PList [PStr ''Unable to parse dealbreakers'']),
            (''dating_thesis'', PStr (take 240 (strip r)))]"
    by (auto simp: parse_intake_cases intake_fallback_def py_upto_nonneg split: sum.splits pyval.splits)
  show ?thesis
    using run mem keys filled failed by (intro exI [of _ ?d] exI [of _ w']) simp
qed

text \<open>The theorem for the first demo user, at the answers \<open>{}\<close> and \<open>nope\<close>.\<close>

theorem run_intake_summary_result_witness:
  "(\<exists>d w'. run_intake_summary small_lib (always ''{}'') ''user_001'' None startup = (Inr d, w')
        \<and> extract_json small_lib ''{}'' = Inr (PDict [])
        \<and> map_of d = map_of default_intake ++ map_of []
        \<and> length (entries (memory (matchmakers w' ''user_001''))) = 1)
   \<and> (\<exists>d w'. run_intake_summary small_lib (always ''nope'') ''user_001'' None startup = (Inr d, w')
        \<and> (\<forall>j. extract_json small_lib ''nope'' \<noteq> Inr (PDict j))
        \<and> dict_get d ''dating_thesis'' PNone = PStr ''nope'')"
proof -
  have a: "extract_json small_lib ''{}'' = Inr (PDict [])" by code_simp
  have b: "extract_json small_lib ''nope'' = Inl JSONDecodeError" by code_simp
  have c: "strip ''nope'' = ''nope''" by code_simp
  have m: "entries (memory (matchmakers startup ''user_001'')) = []"
    by (simp add: startup_def MatchmakerAgent_init_def set_metadata_def Memory_init_def)
  show ?thesis
    using run_intake_summary_result [of "always ''{}''" startup "''user_001''" None "''{}''" small_lib]
      run_intake_summary_result [of "always ''nope''" startup "''user_001''" None "''nope''" small_lib]
    by (auto simp: a b c m always_def dict_get_def)
qed





section \<open>Properties of the live intake\<close>

lemma OpenRouterClient_alt:
  "OpenRouterClient P w =
     (if configured P then Inr () else Inl (KeyError (missing_variable P)), w)"
  by (auto simp: OpenRouterClient_def configured_def missing_variable_def split: option.splits)

lemma sessions_agent_write [simp]: "sessions (agent_write a t md w) = sessions w"
  by (simp add: agent_write_def)

lemma users_agent_write [simp]: "registry_users (agent_write a t md w) = registry_users w"
  by (simp add: agent_write_def)

lemma calls_agent_write [simp]: "calls (agent_write a t md w) = calls w"
  by (simp add: agent_write_def)

lemma profile_agent_write [simp]:
  "user_profile (matchmakers (agent_write a t md w) b) = user_profile (matchmakers w b)"
  by (simp add: agent_write_def)

lemma sessions_put_session [simp]: "sessions (put_session sid s w) = (sessions w)(sid \<mapsto> s)"
  by (simp add: put_session_def)

lemma users_put_session [simp]: "registry_users (put_session sid s w) = registry_users w"
  by (simp add: put_session_def)

lemma calls_put_session [simp]: "calls (put_session sid s w) = calls w"
  by (simp add: put_session_def)

lemma matchmakers_put_session [simp]: "matchmakers (put_session sid s w) = matchmakers w"
  by (simp add: put_session_def)

lemma get_matchmaker_users:
  "registry_users w' = registry_users w \<Longrightarrow> get_matchmaker w' uid = get_matchmaker w uid"
  by (simp add: get_matchmaker_def)

lemma sessions_chat: "sessions (snd (chat P site req w)) = sessions w"
  by (simp add: chat_def)



lemma sessions_generate_next_question:
  "sessions (snd (generate_next_question L P qs as k w)) = sessions w"
  by (simp add: generate_next_question_def and_then_def chat_def OpenRouterClient_alt
      split: sum.splits option.splits prod.splits)

















lemma run_intake_summary_total:
  assumes "\<forall>n req. respond P n req \<noteq> None"
  shows "\<exists>d w'. run_intake_summary L P a x w = (Inr d, w')"
proof -
  obtain r where "respond P (length (calls w))
      \<lparr>messages = [user_message (intake_prompt (user_profile (matchmakers w a)) x)],
       temperature = 0.7\<rparr> = Some r"
    using assms by blast
  then show ?thesis
    by (simp add: run_intake_summary_def and_then_def chat_def Let_def)
qed



lemma and_then_total:
  "\<exists>x w1. m w = (Inr x, w1) \<Longrightarrow> (\<And>x w1. \<exists>y w'. f x w1 = (Inr y, w')) \<Longrightarrow>
   \<exists>y w'. and_then m f w = (Inr y, w')"
  by (auto simp: and_then_def)














section \<open>Properties of a date exchange\<close>

lemma chat_Inr:
  "chat P s req w = (Inr r, w') \<longleftrightarrow>
   respond P (length (calls w)) req = Some r \<and> w' = w\<lparr>calls := calls w @ [(s, req)]\<rparr>"
  by (auto simp: chat_def split: option.splits)

lemma chat_world: "snd (chat P s req w) = w\<lparr>calls := calls w @ [(s, req)]\<rparr>"
  by (simp add: chat_def)

lemma conversation_trace:
  assumes "conversation L P ua ub ia ib scn tm ns acc w = (Inr acc', w')"
  shows "\<exists>cs ts. w' = w\<lparr>calls := calls w @ cs\<rparr> \<and> fst acc' = fst acc @ ts
           \<and> length cs = length ns \<and> length ts = length ns
           \<and> (\<forall>i<length ns.
                 fst (cs ! i) = TurnCall (ns ! i)
                 \<and> user_part (snd (cs ! i)) = Some (user_prompt tm (ns ! i))
                 \<and> speaker (ts ! i) = (if ns ! i mod 2 = 0 then ''A'' else ''B'')
                 \<and> name (ts ! i) = display_name (if ns ! i mod 2 = 0 then ua else ub)
                 \<and> (\<exists>r. respond P (length (calls w) + i) (snd (cs ! i)) = Some r
                        \<and> turn_text (ts ! i) = strip r))"
  using assms
proof (induction ns arbitrary: acc w)
  case Nil
  then show ?case by (simp add: ok_def)
next
  case (Cons n ns)
  let ?cur = "if n mod 2 = 0 then ua else ub"
  let ?req = "\<lparr>messages =
                 [\<lparr>role = ''system'',
                   content = system_prompt L ?cur (if n mod 2 = 0 then ia else ib) scn (snd acc)\<rparr>,
                  \<lparr>role = ''user'', content = user_prompt tm n\<rparr>],
               temperature = 0.7\<rparr>"
  from Cons.prems obtain r w1 where
    c: "chat P (TurnCall n) ?req w = (Inr r, w1)" and
    rest: "conversation L P ua ub ia ib scn tm ns
             (fst acc @ [\<lparr>speaker = (if n mod 2 = 0 then ''A'' else ''B''),
                          name = display_name ?cur, turn_text = strip r\<rparr>],
              snd acc @ display_name ?cur @ '': '' @ strip r @ ''\<newline>'') w1 = (Inr acc', w')"
    by (auto simp: Let_def and_then_Inr)
  from c have r: "respond P (length (calls w)) ?req = Some r"
    and w1: "w1 = w\<lparr>calls := calls w @ [(TurnCall n, ?req)]\<rparr>"
    by (simp_all add: chat_Inr)
  from Cons.IH [OF rest] obtain cs ts where
    IH: "w' = w1\<lparr>calls := calls w1 @ cs\<rparr>"
        "fst acc' = (fst acc @ [\<lparr>speaker = (if n mod 2 = 0 then ''A'' else ''B''),
                          name = display_name ?cur, turn_text = strip r\<rparr>]) @ ts"
        "length cs = length ns" "length ts = length ns"
        "\<forall>i<length ns.
                 fst (cs ! i) = TurnCall (ns ! i)
                 \<and> user_part (snd (cs ! i)) = Some (user_prompt tm (ns ! i))
                 \<and> speaker (ts ! i) = (if ns ! i mod 2 = 0 then ''A'' else ''B'')
                 \<and> name (ts ! i) = display_name (if ns ! i mod 2 = 0 then ua else ub)
                 \<and> (\<exists>r. respond P (length (calls w1) + i) (snd (cs ! i)) = Some r
                        \<and> turn_text (ts ! i) = strip r)"
    by auto
  let ?t = "\<lparr>speaker = (if n mod 2 = 0 then ''A'' else ''B''),
                          name = display_name ?cur, turn_text = strip r\<rparr>"
  have "\<forall>i<length (n # ns).
                 fst (((TurnCall n, ?req) # cs) ! i) = TurnCall ((n # ns) ! i)
                 \<and> user_part (snd (((TurnCall n, ?req) # cs) ! i)) = Some (user_prompt tm ((n # ns) ! i))
                 \<and> speaker ((?t # ts) ! i) = (if (n # ns) ! i mod 2 = 0 then ''A'' else ''B'')
                 \<and> name ((?t # ts) ! i) = display_name (if (n # ns) ! i mod 2 = 0 then ua else ub)
                 \<and> (\<exists>r. respond P (length (calls w) + i) (snd (((TurnCall n, ?req) # cs) ! i)) = Some r
                        \<and> turn_text ((?t # ts) ! i) = strip r)"
  proof (intro allI impI)
    fix i assume "i < length (n # ns)"
    then show "fst (((TurnCall n, ?req) # cs) ! i) = TurnCall ((n # ns) ! i)
                 \<and> user_part (snd (((TurnCall n, ?req) # cs) ! i)) = Some (user_prompt tm ((n # ns) ! i))
                 \<and> speaker ((?t # ts) ! i) = (if (n # ns) ! i mod 2 = 0 then ''A'' else ''B'')
                 \<and> name ((?t # ts) ! i) = display_name (if (n # ns) ! i mod 2 = 0 then ua else ub)
                 \<and> (\<exists>r. respond P (length (calls w) + i) (snd (((TurnCall n, ?req) # cs) ! i)) = Some r
                        \<and> turn_text ((?t # ts) ! i) = strip r)"
    proof (cases i)
      case 0
      then show ?thesis using r by (simp add: user_part_def)
    next
      case (Suc j)
      then have "j < length ns" using \<open>i < length (n # ns)\<close> by simp
      then show ?thesis using IH(5) Suc by (simp add: w1)
    qed
  qed
  moreover have "w' = w\<lparr>calls := calls w @ (TurnCall n, ?req) # cs\<rparr>"
    using IH(1) by (simp add: w1)
  moreover have "fst acc' = fst acc @ ?t # ts" using IH(2) by simp
  ultimately show ?case using IH(3,4)
    by (intro exI [of _ "(TurnCall n, ?req) # cs"] exI [of _ "?t # ts"]) simp
qed

lemma grows_refl [simp]: "grows w w"
  by (simp add: grows_def)

lemma grows_trans: "grows w w1 \<Longrightarrow> grows w1 w2 \<Longrightarrow> grows w w2"
  unfolding grows_def by (metis append.assoc)

lemma effect_refl [simp]: "effect w w []"
  by (simp add: effect_def)

lemma effect_trans: "effect w w1 cs1 \<Longrightarrow> effect w1 w2 cs2 \<Longrightarrow> effect w w2 (cs1 @ cs2)"
  by (auto simp: effect_def intro: grows_trans)

lemma effect_calls: "effect w (w\<lparr>calls := calls w @ cs\<rparr>) cs"
  by (simp add: effect_def grows_def)

lemma effect_agent_write: "effect w (agent_write a t md w) []"
  by (simp add: effect_def grows_def agent_write_def Memory_write_def)

lemma effect_evaluator_write: "effect w (evaluator_write t md w) []"
  by (simp add: effect_def grows_def evaluator_write_def Memory_write_def)

lemma effect_chat: "effect w (snd (chat P s req w)) [(s, req)]"
  by (simp add: chat_world effect_calls)

lemma generate_delta_insight_run:
  "\<exists>req w'. generate_delta_insight L P ua ub ia ib scn tt nts w =
       (Inr (case respond P (length (calls w)) req of Some r \<Rightarrow> strip r | None \<Rightarrow> []), w')
     \<and> effect w w' [(DeltaInsightCall, req)]"
proof -
  define notes_text where "notes_text =
     (let joined = str_join ''\<newline>'' (map (\<lambda>n. ''- '' @ n) nts)
      in if joined \<noteq> [] then joined else ''- (no notes)'')"
  let ?req = "\<lparr>messages = [user_message (delta_prompt L ua ub ia ib scn tt notes_text)],
               temperature = 0.5\<rparr>"
  have "generate_delta_insight L P ua ub ia ib scn tt nts w =
       (Inr (case respond P (length (calls w)) ?req of Some r \<Rightarrow> strip r | None \<Rightarrow> []),
        w\<lparr>calls := calls w @ [(DeltaInsightCall, ?req)]\<rparr>)"
    by (simp add: generate_delta_insight_def Let_def notes_text_def try_except_def and_then_def
        chat_def ok_def split: option.splits)
  then show ?thesis
    using effect_calls [of w "[(DeltaInsightCall, ?req)]"] by blast
qed

lemma write_matchmaker_reflection_run:
  "\<exists>cs w'. write_matchmaker_reflection L P agent su ou si scn tt ts w =
       (Inr (case agent of
               None \<Rightarrow> []
             | Some a \<Rightarrow> (case respond P (length (calls w)) (snd (hd cs)) of
                            Some r \<Rightarrow> strip r | None \<Rightarrow> [])), w')
     \<and> effect w w' cs
     \<and> map fst cs = (case agent of None \<Rightarrow> [] | Some a \<Rightarrow> [ReflectionCall])"
proof (cases agent)
  case None
  then show ?thesis by (simp add: write_matchmaker_reflection_def ok_def)
next
  case (Some a)
  let ?req = "\<lparr>messages = [user_message (reflection_prompt L su ou si scn tt)], temperature = 0.6\<rparr>"
  let ?cs = "[(ReflectionCall, ?req)]"
  let ?w1 = "w\<lparr>calls := calls w @ ?cs\<rparr>"
  show ?thesis
  proof (cases "respond P (length (calls w)) ?req")
    case None
    have "write_matchmaker_reflection L P agent su ou si scn tt ts w = (Inr [], ?w1)"
      using None Some
      by (simp add: write_matchmaker_reflection_def try_except_def and_then_def chat_def ok_def)
    then show ?thesis
      using None Some effect_calls [of w ?cs]
      by (intro exI [of _ ?cs] exI [of _ ?w1]) simp
  next
    case reply: (Some r)
    define w2 where "w2 = agent_write a
                     (''Matchmaker reflection after date with '' @ display_name ou
                        @ '':\<newline>'' @ strip r)
                     [(''type'', PStr ''matchmaker_reflection''),
                      (''partner_user_id'', PStr (user_id ou)),
                      (''timestamp'', PFloat ts)] ?w1"
    have run: "write_matchmaker_reflection L P agent su ou si scn tt ts w = (Inr (strip r), w2)"
      using reply Some
      by (simp add: write_matchmaker_reflection_def try_except_def and_then_def chat_def w2_def)
    have "effect w w2 (?cs @ [])"
      unfolding w2_def by (rule effect_trans [OF effect_calls effect_agent_write])
    then show ?thesis
      using reply Some run
      by (intro exI [of _ ?cs] exI [of _ w2]) simp
  qed
qed

lemma score_date_exchange_run:
  assumes "score_date_exchange L P scn transcr ia ib w = (Inr d, w')"
  shows "\<exists>req r. respond P (length (calls w)) req = Some r
           \<and> d = (case parse_score L r of Inr d \<Rightarrow> d | Inl e \<Rightarrow> failed_score)
           \<and> effect w w' [(ScoreCall, req)]"
proof -
  let ?req = "\<lparr>messages = [user_message (score_prompt L scn (transcript_text_of transcr) ia ib)],
               temperature = 0.5\<rparr>"
  from assms obtain r where "respond P (length (calls w)) ?req = Some r"
      "w' = w\<lparr>calls := calls w @ [(ScoreCall, ?req)]\<rparr>"
      "d = (case parse_score L r of Inr d \<Rightarrow> d | Inl e \<Rightarrow> failed_score)"
    by (auto simp: score_date_exchange_def and_then_Inr chat_Inr ok_def)
  then show ?thesis
    using effect_calls [of w "[(ScoreCall, ?req)]"] by blast
qed

lemma effect_nil_trans: "effect w1 w2 [] \<Longrightarrow> effect w2 w3 [] \<Longrightarrow> effect w1 w3 []"
  using effect_trans [of w1 w2 "[]" w3 "[]"] by simp

lemma effect_opt_agent_write:
  "effect w (case agent of None \<Rightarrow> w | Some a \<Rightarrow> agent_write a (t a) (md a) w) []"
  by (cases agent) (simp_all add: effect_agent_write)

lemma store_exchange_effect:
  "effect w (store_exchange agent_a agent_b ua ub scn tt nts delta ts w) []"
  unfolding store_exchange_def Let_def
  apply (rule effect_nil_trans [OF _ effect_evaluator_write])
  apply (rule effect_nil_trans [OF _ effect_opt_agent_write])
  apply (rule effect_nil_trans [OF _ effect_opt_agent_write])
  apply (simp add: effect_evaluator_write)
  done

lemma effect_length: "effect w w' cs \<Longrightarrow> length (calls w') = length (calls w) + length cs"
  by (simp add: effect_def)

lemma conclude_exchange_run:
  assumes "conclude_exchange L P ua aa ub ab ia ib scn transcr nts ts delta w = (Inr e, w')"
  shows "\<exists>csA csB req r.
           effect w w' (csA @ csB @ [(ScoreCall, req)])
           \<and> map fst csA = refl_sites aa \<and> map fst csB = refl_sites ab
           \<and> respond P (length (calls w) + length csA + length csB) req = Some r
           \<and> e = \<lparr>ex_scene = scn, ex_transcript = transcr, ex_evaluator_notes = nts,
                   ex_delta_insight = delta,
                   ex_reflections =
                     AList.update (user_id ub)
                       (case ab of
                          None \<Rightarrow> []
                        | Some b \<Rightarrow>
                            (case respond P (length (calls w) + length csA) (snd (hd csB)) of
                               Some r \<Rightarrow> strip r | None \<Rightarrow> []))
                       [(user_id ua,
                         case aa of
                           None \<Rightarrow> []
                         | Some a \<Rightarrow>
                             (case respond P (length (calls w)) (snd (hd csA)) of
                                Some r \<Rightarrow> strip r | None \<Rightarrow> []))],
                   ex_score = (case parse_score L r of Inr d \<Rightarrow> d | Inl e \<Rightarrow> failed_score)\<rparr>"
proof -
  define w0 where "w0 = store_exchange aa ab ua ub scn (transcript_text_of transcr) nts delta ts w"
  have e0: "effect w w0 []" unfolding w0_def by (rule store_exchange_effect)
  then have l0: "length (calls w0) = length (calls w)" by (simp add: effect_def)
  from assms obtain ra wA rb wB d wS where
    A: "write_matchmaker_reflection L P aa ua ub ia scn (transcript_text_of transcr) ts w0 = (Inr ra, wA)"
    and B: "write_matchmaker_reflection L P ab ub ua ib scn (transcript_text_of transcr) ts wA = (Inr rb, wB)"
    and S: "score_date_exchange L P scn transcr ia ib wB = (Inr d, wS)"
    and e: "e = \<lparr>ex_scene = scn, ex_transcript = transcr, ex_evaluator_notes = nts,
                  ex_delta_insight = delta,
                  ex_reflections = AList.update (user_id ub) rb [(user_id ua, ra)],
                  ex_score = d\<rparr>"
    and w': "w' = evaluator_write
             (''Date score: '' @ display_name ua @ '' '' @ [CHR 0xD7] @ '' ''
                @ display_name ub @ ''\<newline>'' @ json_dumps_indent2 L (PDict d))
             ((''type'', PStr ''date_score'') # pair_ids ua ub ts) wS"
    unfolding conclude_exchange_def w0_def [symmetric] and_then_Inr by auto
  from write_matchmaker_reflection_run [of L P aa ua ub ia scn "transcript_text_of transcr" ts w0] A
  obtain csA where csA: "ra = (case aa of None \<Rightarrow> []
             | Some a \<Rightarrow> (case respond P (length (calls w0)) (snd (hd csA)) of
                            Some r \<Rightarrow> strip r | None \<Rightarrow> []))"
      "effect w0 wA csA" "map fst csA = refl_sites aa"
    by (auto simp: refl_sites_def)
  have lA: "length (calls wA) = length (calls w) + length csA"
    using effect_length [OF csA(2)] l0 by simp
  from write_matchmaker_reflection_run [of L P ab ub ua ib scn "transcript_text_of transcr" ts wA] B
  obtain csB where csB: "rb = (case ab of None \<Rightarrow> []
             | Some a \<Rightarrow> (case respond P (length (calls wA)) (snd (hd csB)) of
                            Some r \<Rightarrow> strip r | None \<Rightarrow> []))"
      "effect wA wB csB" "map fst csB = refl_sites ab"
    by (auto simp: refl_sites_def)
  have lB: "length (calls wB) = length (calls w) + length csA + length csB"
    using effect_length [OF csB(2)] lA by simp
  from score_date_exchange_run [OF S] obtain req r where
    sc: "respond P (length (calls wB)) req = Some r"
        "d = (case parse_score L r of Inr d \<Rightarrow> d | Inl e \<Rightarrow> failed_score)"
        "effect wB wS [(ScoreCall, req)]"
    by blast
  have "effect wS w' []" unfolding w' by (rule effect_evaluator_write)
  then have "effect wB w' [(ScoreCall, req)]"
    using effect_trans [OF sc(3)] by fastforce
  then have "effect wA w' (csB @ [(ScoreCall, req)])"
    using effect_trans [OF csB(2)] by blast
  then have "effect w0 w' (csA @ csB @ [(ScoreCall, req)])"
    using effect_trans [OF csA(2)] by blast
  then have "effect w w' (csA @ csB @ [(ScoreCall, req)])"
    using effect_trans [OF e0] by fastforce
  moreover have "e = \<lparr>ex_scene = scn, ex_transcript = transcr, ex_evaluator_notes = nts,
                   ex_delta_insight = delta,
                   ex_reflections =
                     AList.update (user_id ub)
                       (case ab of
                          None \<Rightarrow> []
                        | Some b \<Rightarrow>
                            (case respond P (length (calls w) + length csA) (snd (hd csB)) of
                               Some r \<Rightarrow> strip r | None \<Rightarrow> []))
                       [(user_id ua,
                         case aa of
                           None \<Rightarrow> []
                         | Some a \<Rightarrow>
                             (case respond P (length (calls w)) (snd (hd csA)) of
                                Some r \<Rightarrow> strip r | None \<Rightarrow> []))],
                   ex_score = (case parse_score L r of Inr d \<Rightarrow> d | Inl e \<Rightarrow> failed_score)\<rparr>"
    unfolding e csA(1) csB(1) sc(2) l0 lA ..
  moreover have "respond P (length (calls w) + length csA + length csB) req = Some r"
    using sc(1) lB by simp
  ultimately show ?thesis
    using csA(3) csB(3) by blast
qed

lemma upt6: "[0..<6] = [0, 1, 2, 3, 4, 5::nat]"
  by (simp add: upt_rec)

lemma run_date_exchange_run:
  assumes "run_date_exchange L P ua aa ub ab w = (Inr e, w')"
  shows "\<exists>cs. effect w w' cs \<and> exchange_record L P ua aa ub ab (length (calls w)) cs e"
proof -
  define ia where "ia = extract_intake_summary L aa w"
  define ib where "ib = extract_intake_summary L ab w"
  define k where "k = length (calls w)"
  let ?c0 = "(SceneCall, \<lparr>messages = [user_message (scene_prompt ua ub)], temperature = 0.7\<rparr>)"
  let ?c1 = "(TestMomentCall, \<lparr>messages = [user_message test_moment_prompt], temperature = 0.8\<rparr>)"
  from assms obtain r0 w1 r1 w2 acc w3 r8 w4 delta w5 where
    c0: "chat P SceneCall (snd ?c0) w = (Inr r0, w1)" and
    c1: "chat P TestMomentCall (snd ?c1) w1 = (Inr r1, w2)" and
    cv: "conversation L P ua ub ia ib (strip r0) (bracketed (strip r1)) [0..<6] ([], []) w2
           = (Inr acc, w3)" and
    c8: "chat P NotesCall
           \<lparr>messages = [user_message (notes_prompt ua ub (strip r0) (transcript_text_of (fst acc)))],
            temperature = 0.6\<rparr> w3 = (Inr r8, w4)" and
    c9: "generate_delta_insight L P ua ub ia ib (strip r0) (transcript_text_of (fst acc))
           (notes_of r8) w4 = (Inr delta, w5)" and
    cc: "conclude_exchange L P ua aa ub ab ia ib (strip r0) (fst acc) (notes_of r8) (now w4)
           delta w5 = (Inr e, w')"
    unfolding run_date_exchange_def Let_def ia_def [symmetric] ib_def [symmetric] and_then_Inr
    by auto
  let ?c8 = "(NotesCall,
           \<lparr>messages = [user_message (notes_prompt ua ub (strip r0) (transcript_text_of (fst acc)))],
            temperature = 0.6\<rparr>)"
  from c0 have s0: "respond P k (snd ?c0) = Some r0" and w1: "w1 = w\<lparr>calls := calls w @ [?c0]\<rparr>"
    by (simp_all add: chat_Inr k_def)
  from c1 have s1: "respond P (k + 1) (snd ?c1) = Some r1" and w2: "w2 = w1\<lparr>calls := calls w1 @ [?c1]\<rparr>"
    by (simp_all add: chat_Inr k_def w1)
  from conversation_trace [OF cv] obtain ct ts where
    t: "w3 = w2\<lparr>calls := calls w2 @ ct\<rparr>" "fst acc = ts" "length ct = 6" "length ts = 6"
       "\<forall>i<6. fst (ct ! i) = TurnCall ([0..<6] ! i)
                 \<and> user_part (snd (ct ! i)) = Some (user_prompt (bracketed (strip r1)) ([0..<6] ! i))
                 \<and> speaker (ts ! i) = (if [0..<6] ! i mod 2 = 0 then ''A'' else ''B'')
                 \<and> name (ts ! i) = display_name (if [0..<6] ! i mod 2 = 0 then ua else ub)
                 \<and> (\<exists>r. respond P (length (calls w2) + i) (snd (ct ! i)) = Some r
                        \<and> turn_text (ts ! i) = strip r)"
    by auto
  have l2: "length (calls w2) = k + 2" by (simp add: w2 w1 k_def)
  have l3: "length (calls w3) = k + 8" by (simp add: t(1,3) l2)
  from c8 have s8: "respond P (k + 8) (snd ?c8) = Some r8" and w4: "w4 = w3\<lparr>calls := calls w3 @ [?c8]\<rparr>"
    by (simp_all add: chat_Inr l3)
  have l4: "length (calls w4) = k + 9" by (simp add: w4 l3)
  from generate_delta_insight_run [of L P ua ub ia ib "strip r0" "transcript_text_of (fst acc)" "notes_of r8" w4] c9
  obtain req9 where d: "delta = (case respond P (k + 9) req9 of Some r \<Rightarrow> strip r | None \<Rightarrow> [])"
      "effect w4 w5 [(DeltaInsightCall, req9)]"
    by (auto simp: l4)
  have l5: "length (calls w5) = k + 10" using effect_length [OF d(2)] l4 by simp
  from conclude_exchange_run [OF cc] obtain csA csB req r where
    c: "effect w5 w' (csA @ csB @ [(ScoreCall, req)])"
       "map fst csA = refl_sites aa" "map fst csB = refl_sites ab"
       "respond P (k + 10 + length csA + length csB) req = Some r"
       "e = \<lparr>ex_scene = strip r0, ex_transcript = fst acc, ex_evaluator_notes = notes_of r8,
                   ex_delta_insight = delta,
                   ex_reflections =
                     AList.update (user_id ub)
                       (case ab of
                          None \<Rightarrow> []
                        | Some b \<Rightarrow>
                            (case respond P (k + 10 + length csA) (snd (hd csB)) of
                               Some r \<Rightarrow> strip r | None \<Rightarrow> []))
                       [(user_id ua,
                         case aa of
                           None \<Rightarrow> []
                         | Some a \<Rightarrow>
                             (case respond P (k + 10) (snd (hd csA)) of
                                Some r \<Rightarrow> strip r | None \<Rightarrow> []))],
                   ex_score = (case parse_score L r of Inr d \<Rightarrow> d | Inl e \<Rightarrow> failed_score)\<rparr>"
    unfolding l5 by blast
  define cs where "cs = ?c0 # ?c1 # ct @ [?c8, (DeltaInsightCall, req9)] @ csA @ csB @ [(ScoreCall, req)]"
  have "effect w w4 (?c0 # ?c1 # ct @ [?c8])"
    by (simp add: effect_def grows_def w4 t(1) w2 w1)
  from effect_trans [OF effect_trans [OF this d(2)] c(1)]
  have eff: "effect w w' cs" by (simp add: cs_def)
  have lA: "length csA = length (refl_sites aa)" and lB: "length csB = length (refl_sites ab)"
    using c(2,3) by (metis length_map)+
  have sites: "map fst cs =
        [SceneCall, TestMomentCall] @ map TurnCall [0..<6] @ [NotesCall, DeltaInsightCall]
        @ refl_sites aa @ refl_sites ab @ [ScoreCall]"
  proof -
    have "map fst ct = map TurnCall [0..<6]"
      using t(3,5) by (intro nth_equalityI) auto
    then show ?thesis by (simp add: cs_def c(2,3))
  qed
  have n0: "cs ! 0 = ?c0" and n1: "cs ! 1 = ?c1" by (simp_all add: cs_def)
  have nt: "cs ! (2 + i) = ct ! i" if "i < 6" for i
    using that t(3) by (simp add: cs_def nth_append)
  have n8: "cs ! 8 = ?c8" using t(3) by (simp add: cs_def nth_append)
  have n9: "cs ! 9 = (DeltaInsightCall, req9)" using t(3) by (simp add: cs_def nth_append)
  have nA: "cs ! 10 = hd csA" if "aa \<noteq> None"
    using that t(3) lA by (cases csA) (auto simp: cs_def nth_append refl_sites_def)
  have nB: "cs ! (10 + length (refl_sites aa)) = hd csB" if "ab \<noteq> None"
    using that t(3) lA lB by (cases csB) (auto simp: cs_def nth_append refl_sites_def)
  have len: "length cs = 11 + length csA + length csB" using t(3) by (simp add: cs_def)
  have nS: "cs ! (length cs - 1) = (ScoreCall, req)"
    using t(3) by (simp add: cs_def nth_append)
  have turn_said: "said P k cs (2 + i) \<noteq> None
                   \<and> turn_text (ts ! i) = said_text P k cs (2 + i)" if "i < 6" for i
  proof -
    from t(5) that obtain r where "respond P (length (calls w2) + i) (snd (ct ! i)) = Some r"
        "turn_text (ts ! i) = strip r" by blast
    then show ?thesis
      using that nt [OF that] by (simp add: said_def said_text_def l2 add.assoc)
  qed
  have answered: "\<forall>i<9. said P k cs i \<noteq> None"
  proof (intro allI impI)
    fix i :: nat assume "i < 9"
    then have "i = 0 \<or> i = 1 \<or> i = 8 \<or> (\<exists>j<6. i = 2 + j)" by presburger
    then consider "i = 0" | "i = 1" | "i = 8" | j where "i = 2 + j" "j < 6" by blast
    then show "said P k cs i \<noteq> None"
    proof cases
      case 1 then show ?thesis using s0 by (simp add: said_def n0)
    next
      case 2 then show ?thesis using s1 n1 by (simp add: said_def)
    next
      case 3 then show ?thesis using s8 by (simp add: said_def n8)
    next
      case 4 then show ?thesis using turn_said by simp
    qed
  qed
  have turns: "\<forall>i<6. speaker (ex_transcript e ! i) = (if i mod 2 = 0 then ''A'' else ''B'')
               \<and> name (ex_transcript e ! i) = display_name (if i mod 2 = 0 then ua else ub)
               \<and> turn_text (ex_transcript e ! i) = said_text P k cs (2 + i)
               \<and> user_part (snd (cs ! (2 + i))) = Some (user_prompt (bracketed (said_text P k cs 1)) i)"
  proof (intro allI impI)
    fix i :: nat assume i: "i < 6"
    have "said_text P k cs 1 = strip r1" using s1 n1 by (simp add: said_text_def said_def)
    moreover have "[0..<6] ! i = i" using i by simp
    ultimately show "speaker (ex_transcript e ! i) = (if i mod 2 = 0 then ''A'' else ''B'')
               \<and> name (ex_transcript e ! i) = display_name (if i mod 2 = 0 then ua else ub)
               \<and> turn_text (ex_transcript e ! i) = said_text P k cs (2 + i)
               \<and> user_part (snd (cs ! (2 + i))) = Some (user_prompt (bracketed (said_text P k cs 1)) i)"
      using t(5) i turn_said [OF i] nt [OF i] by (simp add: c(5) t(2))
  qed
  have refl: "ex_reflections e =
           AList.update (user_id ub)
             (case ab of None \<Rightarrow> []
              | Some b \<Rightarrow> said_text P k cs (10 + length (refl_sites aa)))
             [(user_id ua, case aa of None \<Rightarrow> [] | Some a \<Rightarrow> said_text P k cs 10)]"
  proof -
    have a: "(case aa of None \<Rightarrow> [] | Some a \<Rightarrow>
               (case respond P (k + 10) (snd (hd csA)) of Some r \<Rightarrow> strip r | None \<Rightarrow> []))
             = (case aa of None \<Rightarrow> [] | Some a \<Rightarrow> said_text P k cs 10)"
      using nA by (cases aa) (simp_all add: said_text_def said_def)
    have b: "(case ab of None \<Rightarrow> [] | Some b \<Rightarrow>
               (case respond P (k + 10 + length csA) (snd (hd csB)) of Some r \<Rightarrow> strip r | None \<Rightarrow> []))
             = (case ab of None \<Rightarrow> [] | Some b \<Rightarrow> said_text P k cs (10 + length (refl_sites aa)))"
      using nB lA by (cases ab) (simp_all add: said_text_def said_def add.assoc)
    show ?thesis unfolding c(5) a b by simp
  qed
  have score: "said P k cs (length cs - 1) = Some r"
  proof -
    have "k + (length cs - 1) = k + 10 + length csA + length csB" using len by simp
    then show ?thesis unfolding said_def nS using c(4) by (simp only: snd_conv)
  qed
  have "exchange_record L P ua aa ub ab k cs e"
    unfolding exchange_record_def
    using sites answered turns refl score s0 s8 d(1)
    by (simp add: c(5) t(2,4) said_text_def said_def n0 n8 n9 del: AList.update.simps)
  then show ?thesis using eff unfolding k_def by blast
qed

lemma chat_total: "answers_all P \<Longrightarrow> \<exists>r w1. chat P s req w = (Inr r, w1)"
  by (auto simp: answers_all_def chat_def split: option.splits)

lemma conversation_total:
  assumes "answers_all P"
  shows "\<exists>acc' w'. conversation L P ua ub ia ib scn tm ns acc w = (Inr acc', w')"
proof (induction ns arbitrary: acc w)
  case Nil
  then show ?case by (simp add: ok_def)
next
  case (Cons n ns)
  show ?case
    unfolding conversation.simps Let_def
    by (rule and_then_total [OF chat_total [OF assms]]) (rule Cons.IH)
qed

lemma generate_delta_insight_total:
  "\<exists>d w'. generate_delta_insight L P ua ub ia ib scn tt nts w = (Inr d, w')"
  using generate_delta_insight_run [of L P ua ub ia ib scn tt nts w] by blast

lemma write_matchmaker_reflection_total:
  "\<exists>d w'. write_matchmaker_reflection L P agent su ou si scn tt ts w = (Inr d, w')"
  using write_matchmaker_reflection_run [of L P agent su ou si scn tt ts w] by blast

lemma score_date_exchange_total:
  assumes "answers_all P"
  shows "\<exists>d w'. score_date_exchange L P scn transcr ia ib w = (Inr d, w')"
  unfolding score_date_exchange_def
  by (rule and_then_total [OF chat_total [OF assms]]) (simp add: ok_def)

lemma conclude_exchange_total:
  assumes "answers_all P"
  shows "\<exists>e w'. conclude_exchange L P ua aa ub ab ia ib scn transcr nts ts delta w = (Inr e, w')"
  unfolding conclude_exchange_def
  apply (rule and_then_total [OF write_matchmaker_reflection_total])
  apply (rule and_then_total [OF write_matchmaker_reflection_total])
  apply (rule and_then_total [OF score_date_exchange_total [OF assms]])
  apply simp
  done

lemma run_date_exchange_total:
  assumes "answers_all P"
  shows "\<exists>e w'. run_date_exchange L P ua aa ub ab w = (Inr e, w')"
  unfolding run_date_exchange_def Let_def
  apply (rule and_then_total [OF chat_total [OF assms]])
  apply (rule and_then_total [OF chat_total [OF assms]])
  apply (rule and_then_total [OF conversation_total [OF assms]])
  apply (rule and_then_total [OF chat_total [OF assms]])
  apply (rule and_then_total [OF generate_delta_insight_total])
  apply (rule conclude_exchange_total [OF assms])
  done

lemma effect_nth: "effect w w' cs \<Longrightarrow> i < length cs \<Longrightarrow> calls w' ! (length (calls w) + i) = cs ! i"
  by (simp add: effect_def nth_append)

lemma effect_reply_at:
  "effect w w' cs \<Longrightarrow> i < length cs \<Longrightarrow> reply_at P w' (length (calls w) + i) = said P (length (calls w)) cs i"
  by (simp add: reply_at_def said_def effect_nth)

lemma exchange_record_length:
  "exchange_record L P ua aa ub ab k cs e \<Longrightarrow>
   length cs = 11 + length (refl_sites aa) + length (refl_sites ab)"
proof -
  assume "exchange_record L P ua aa ub ab k cs e"
  then have "map fst cs =
        [SceneCall, TestMomentCall] @ map TurnCall [0..<6] @ [NotesCall, DeltaInsightCall]
        @ refl_sites aa @ refl_sites ab @ [ScoreCall]"
    by (simp add: exchange_record_def)
  then have "length (map fst cs) = 11 + length (refl_sites aa) + length (refl_sites ab)"
    by simp
  then show ?thesis by simp
qed

lemma contains_set: "contains s sub \<Longrightarrow> set sub \<subseteq> set s"
proof (induction s)
  case Nil
  then show ?case by simp
next
  case (Cons c cs)
  from Cons.prems consider "startswith (c # cs) sub" | "contains cs sub" by auto
  then show ?case
  proof cases
    case 1
    then have "sub = take (length sub) (c # cs)" by (simp add: startswith_def)
    then show ?thesis using set_take_subset [of "length sub" "c # cs"] by metis
  next
    case 2
    then have "set sub \<subseteq> set cs" by (rule Cons.IH)
    then show ?thesis by auto
  qed
qed

lemma bracketed_open: "CHR ''['' \<in> set (bracketed t)"
proof (cases "startswith t ''[''")
  case True
  then have "take 1 t = ''[''" by (simp add: startswith_def)
  then have "t \<noteq> [] \<and> hd t = CHR ''[''" by (cases t) auto
  then show ?thesis using True by (cases t) (auto simp: bracketed_def)
next
  case False
  then show ?thesis by (simp add: bracketed_def)
qed

lemma startswith_bracketed: "startswith (bracketed t) ''[''"
  by (auto simp: bracketed_def startswith_def)

lemma contains_prefix: "p \<noteq> [] \<Longrightarrow> contains (p @ s) p"
  by (cases p) (simp_all add: startswith_def)

lemma user_prompt_moment:
  "contains (user_prompt (bracketed t) i) (bracketed t) \<longleftrightarrow> i = 2"
proof (cases "i = 2")
  case True
  have "bracketed t \<noteq> []" using bracketed_open [of t] by auto
  then show ?thesis using True by (simp add: user_prompt_def contains_prefix)
next
  case False
  have "CHR ''['' \<notin> set ''Continue the conversation naturally.''" by simp
  then have "\<not> contains ''Continue the conversation naturally.'' (bracketed t)"
    using contains_set bracketed_open by blast
  then show ?thesis using False by (simp add: user_prompt_def)
qed

text \<open>
  C2. When the provider answers every request, \<open>run_date_exchange\<close> returns. Whenever
  it returns, its transcript has exactly 6 turns; turn \<open>i\<close> is spoken by A (user A's
  name) for even \<open>i\<close> and by B (user B's name) for odd \<open>i\<close>; its text is the provider's
  answer to the request of that turn, stripped; and the user prompt of that request is
  the bracketed test moment followed by "Respond naturally to what just happened." for
  the third turn and the fixed "Continue the conversation naturally." for every other
  turn, so that the test moment occurs in the user prompt of the third turn only.
\<close>

theorem run_date_exchange_transcript:
  "(answers_all P \<longrightarrow> (\<exists>e w'. run_date_exchange L P ua aa ub ab w = (Inr e, w')))
   \<and> (\<forall>e w'. run_date_exchange L P ua aa ub ab w = (Inr e, w') \<longrightarrow>
         length (ex_transcript e) = 6
         \<and> (\<exists>moment. reply_at P w' (length (calls w) + 1) = Some moment
              \<and> (\<forall>i<6. speaker (ex_transcript e ! i) = (if i mod 2 = 0 then ''A'' else ''B'')
                   \<and> name (ex_transcript e ! i) = display_name (if i mod 2 = 0 then ua else ub)
                   \<and> fst (calls w' ! (length (calls w) + 2 + i)) = TurnCall i
                   \<and> (\<exists>r. reply_at P w' (length (calls w) + 2 + i) = Some r
                          \<and> turn_text (ex_transcript e ! i) = strip r)
                   \<and> (\<exists>prompt. user_part (snd (calls w' ! (length (calls w) + 2 + i))) = Some prompt
                          \<and> prompt = (if i = 2
                                       then bracketed (strip moment)
                                            @ ''\<newline>Respond naturally to what just happened.''
                                       else ''Continue the conversation naturally.'')
                          \<and> (contains prompt (bracketed (strip moment)) \<longleftrightarrow> i = 2)))))"
proof (intro conjI impI allI)
  assume "answers_all P"
  then show "\<exists>e w'. run_date_exchange L P ua aa ub ab w = (Inr e, w')"
    by (rule run_date_exchange_total)
next
  fix e w' assume run: "run_date_exchange L P ua aa ub ab w = (Inr e, w')"
  define k where "k = length (calls w)"
  from run_date_exchange_run [OF run] obtain cs where
    eff: "effect w w' cs" and rec: "exchange_record L P ua aa ub ab k cs e"
    unfolding k_def by blast
  have len: "length cs \<ge> 11" using exchange_record_length [OF rec] by simp
  show "length (ex_transcript e) = 6" using rec by (simp add: exchange_record_def)
  have "said P k cs 1 \<noteq> None" using rec by (simp add: exchange_record_def)
  then obtain moment where m: "said P k cs 1 = Some moment" by blast
  then have mt: "said_text P k cs 1 = strip moment" by (simp add: said_text_def)
  have m': "reply_at P w' (k + 1) = Some moment"
    using effect_reply_at [OF eff, of 1 P] len m by (simp add: k_def)
  have each: "speaker (ex_transcript e ! i) = (if i mod 2 = 0 then ''A'' else ''B'')
                   \<and> name (ex_transcript e ! i) = display_name (if i mod 2 = 0 then ua else ub)
                   \<and> fst (calls w' ! (k + 2 + i)) = TurnCall i
                   \<and> (\<exists>r. reply_at P w' (k + 2 + i) = Some r
                          \<and> turn_text (ex_transcript e ! i) = strip r)
                   \<and> (\<exists>prompt. user_part (snd (calls w' ! (k + 2 + i))) = Some prompt
                          \<and> prompt = (if i = 2
                                       then bracketed (strip moment)
                                            @ ''\<newline>Respond naturally to what just happened.''
                                       else ''Continue the conversation naturally.'')
                          \<and> (contains prompt (bracketed (strip moment)) \<longleftrightarrow> i = 2))" if i: "i < 6" for i
  proof -
    have i2: "2 + i < length cs" "2 + i < 9" using i len by simp_all
    have nth: "calls w' ! (k + 2 + i) = cs ! (2 + i)"
      using effect_nth [OF eff i2(1)] by (simp add: k_def add.assoc)
    have rp: "reply_at P w' (k + 2 + i) = said P k cs (2 + i)"
      using effect_reply_at [OF eff i2(1), of P] by (simp add: k_def add.assoc)
    have "said P k cs (2 + i) \<noteq> None" using rec i2(2) unfolding exchange_record_def by blast
    then obtain r where r: "said P k cs (2 + i) = Some r" by blast
    have site: "fst (cs ! (2 + i)) = TurnCall i"
    proof -
      have "map fst cs ! (2 + i) = TurnCall i"
        using rec i by (simp add: exchange_record_def nth_append upt6 nth_Cons' )
      then show ?thesis using i2(1) by simp
    qed
    from rec i have t: "speaker (ex_transcript e ! i) = (if i mod 2 = 0 then ''A'' else ''B'')"
        "name (ex_transcript e ! i) = display_name (if i mod 2 = 0 then ua else ub)"
        "turn_text (ex_transcript e ! i) = said_text P k cs (2 + i)"
        "user_part (snd (cs ! (2 + i))) = Some (user_prompt (bracketed (said_text P k cs 1)) i)"
      unfolding exchange_record_def by blast+
    have up: "user_prompt (bracketed (strip moment)) i =
              (if i = 2 then bracketed (strip moment) @ ''\<newline>Respond naturally to what just happened.''
               else ''Continue the conversation naturally.'')"
      by (simp add: user_prompt_def)
    show ?thesis
      using t(1,2) site r t(3) t(4) user_prompt_moment [of "strip moment" i]
      unfolding nth rp mt up [symmetric]
      by (simp add: said_text_def)
  qed
  show "\<exists>moment. reply_at P w' (length (calls w) + 1) = Some moment
              \<and> (\<forall>i<6. speaker (ex_transcript e ! i) = (if i mod 2 = 0 then ''A'' else ''B'')
                   \<and> name (ex_transcript e ! i) = display_name (if i mod 2 = 0 then ua else ub)
                   \<and> fst (calls w' ! (length (calls w) + 2 + i)) = TurnCall i
                   \<and> (\<exists>r. reply_at P w' (length (calls w) + 2 + i) = Some r
                          \<and> turn_text (ex_transcript e ! i) = strip r)
                   \<and> (\<exists>prompt. user_part (snd (calls w' ! (length (calls w) + 2 + i))) = Some prompt
                          \<and> prompt = (if i = 2
                                       then bracketed (strip moment)
                                            @ ''\<newline>Respond naturally to what just happened.''
                                       else ''Continue the conversation naturally.'')
                          \<and> (contains prompt (bracketed (strip moment)) \<longleftrightarrow> i = 2)))"
    using m' each unfolding k_def by blast
qed

text \<open>The theorem for two demo users and a provider that answers \<open>{}\<close> to everything.\<close>

theorem run_date_exchange_transcript_witness:
  "answers_all (always ''{}'')
   \<and> (\<exists>e w'. run_date_exchange small_lib (always ''{}'') user_001 (Some ''user_001'')
                 user_002 (Some ''user_002'') startup = (Inr e, w')
          \<and> length (ex_transcript e) = 6
          \<and> speaker (ex_transcript e ! 0) = ''A'' \<and> speaker (ex_transcript e ! 1) = ''B''
          \<and> name (ex_transcript e ! 1) = ''Alex''
          \<and> turn_text (ex_transcript e ! 2) = ''{}''
          \<and> user_part (snd (calls w' ! 4))
               = Some ''[{}]\<newline>Respond naturally to what just happened.''
          \<and> user_part (snd (calls w' ! 5)) = Some ''Continue the conversation naturally.'')"
proof -
  let ?P = "always ''{}''"
  note T = run_date_exchange_transcript [of ?P small_lib user_001 "Some ''user_001''" user_002
      "Some ''user_002''" startup]
  have all: "answers_all ?P" by (simp add: answers_all_def always_def)
  with T obtain e w' where run: "run_date_exchange small_lib ?P user_001 (Some ''user_001'')
                 user_002 (Some ''user_002'') startup = (Inr e, w')" by blast
  have k: "length (calls startup) = 0" by (simp add: startup_def)
  have rp: "reply_at ?P w' n = Some ''{}''" for n by (simp add: reply_at_def always_def)
  have st: "strip ''{}'' = ''{}''" by code_simp
  have br: "bracketed ''{}'' = ''[{}]''" by code_simp
  have nm: "display_name user_002 = ''Alex''" by (simp add: user_002_def)
  from T run have len: "length (ex_transcript e) = 6"
    and each: "\<exists>moment. reply_at ?P w' (length (calls startup) + 1) = Some moment
              \<and> (\<forall>i<6. speaker (ex_transcript e ! i) = (if i mod 2 = 0 then ''A'' else ''B'')
                   \<and> name (ex_transcript e ! i) = display_name (if i mod 2 = 0 then user_001 else user_002)
                   \<and> fst (calls w' ! (length (calls startup) + 2 + i)) = TurnCall i
                   \<and> (\<exists>r. reply_at ?P w' (length (calls startup) + 2 + i) = Some r
                          \<and> turn_text (ex_transcript e ! i) = strip r)
                   \<and> (\<exists>prompt. user_part (snd (calls w' ! (length (calls startup) + 2 + i))) = Some prompt
                          \<and> prompt = (if i = 2
                                       then bracketed (strip moment)
                                            @ ''\<newline>Respond naturally to what just happened.''
                                       else ''Continue the conversation naturally.'')
                          \<and> (contains prompt (bracketed (strip moment)) \<longleftrightarrow> i = 2)))"
    by blast+
  from each have i: "\<forall>i<6. speaker (ex_transcript e ! i) = (if i mod 2 = 0 then ''A'' else ''B'')
                   \<and> name (ex_transcript e ! i) = display_name (if i mod 2 = 0 then user_001 else user_002)
                   \<and> turn_text (ex_transcript e ! i) = ''{}''
                   \<and> user_part (snd (calls w' ! (2 + i)))
                       = Some (if i = 2 then ''[{}]\<newline>Respond naturally to what just happened.''
                               else ''Continue the conversation naturally.'')"
    by (auto simp: rp st br k)
  have "speaker (ex_transcript e ! 0) = ''A''" using i by auto
  moreover have "speaker (ex_transcript e ! 1) = ''B'' \<and> name (ex_transcript e ! 1) = ''Alex''"
    using i [rule_format, of 1] by (simp add: nm)
  moreover have "turn_text (ex_transcript e ! 2) = ''{}''
      \<and> user_part (snd (calls w' ! 4)) = Some ''[{}]\<newline>Respond naturally to what just happened.''"
    using i [rule_format, of 2] by simp
  moreover have "user_part (snd (calls w' ! 5)) = Some ''Continue the conversation naturally.''"
    using i [rule_format, of 3] by simp
  ultimately show ?thesis using all run len by blast
qed

section \<open>Properties of the pipeline\<close>

lemma run_intake_summary_calls:
  "\<exists>req. calls (snd (run_intake_summary L P a x w)) = calls w @ [(IntakeSummaryCall, req)]"
  by (simp add: run_intake_summary_def and_then_def chat_def Let_def agent_write_def
      split: option.splits)

lemma run_intake_summary_effect:
  assumes "run_intake_summary L P a x w = (Inr d, w')"
  shows "\<exists>req. effect w w' [(IntakeSummaryCall, req)]"
proof -
  let ?req = "\<lparr>messages = [user_message (intake_prompt (user_profile (matchmakers w a)) x)],
               temperature = 0.7\<rparr>"
  from assms obtain r t md where
    "w' = agent_write a t md (w\<lparr>calls := calls w @ [(IntakeSummaryCall, ?req)]\<rparr>)"
    by (auto simp: run_intake_summary_def Let_def and_then_Inr chat_Inr)
  then have "effect w w' ([(IntakeSummaryCall, ?req)] @ [])"
    using effect_trans [OF effect_calls effect_agent_write] by blast
  then show ?thesis by auto
qed

lemma run_intake_summary_frame:
  assumes "run_intake_summary L P a x w = (Inr d, w')"
  shows "(\<exists>e. entries (memory (matchmakers w' a)) = entries (memory (matchmakers w a)) @ [e])
         \<and> metadata (memory (matchmakers w' a)) = metadata (memory (matchmakers w a))
         \<and> (\<forall>b. b \<noteq> a \<longrightarrow> matchmakers w' b = matchmakers w b)
         \<and> evaluator_memory w' = evaluator_memory w"
  using assms
  by (auto simp: run_intake_summary_def Let_def and_then_Inr chat_Inr agent_write_def
      Memory_write_def)








lemma replicate3_concat: "length css = 3 \<Longrightarrow> concat css = css ! 0 @ css ! 1 @ css ! 2"
  by (cases css; cases "tl css"; cases "tl (tl css)") auto

lemma exchange_record_sites:
  "exchange_record L P ua (Some a) ub (Some b) k cs e \<Longrightarrow> map fst cs = exchange_sites"
  by (simp add: exchange_record_def exchange_sites_def refl_sites_def upt6)


lemma effect_requests_since: "effect w w' cs \<Longrightarrow> requests_since w w' = cs"
  by (simp add: effect_def requests_since_def)








lemma conclude_exchange_last_write:
  assumes "conclude_exchange L P ua aa ub ab ia ib scn transcr nts ts delta w = (Inr e, w')"
  shows "\<exists>old t md. entries (evaluator_memory w') = old @ [\<lparr>entry_text = t, entry_metadata = md\<rparr>]
           \<and> map_of md ''type'' = Some (PStr ''date_score'')"
proof -
  from assms obtain wS t md where
    "w' = evaluator_write t ((''type'', PStr ''date_score'') # md) wS"
    unfolding conclude_exchange_def and_then_Inr by auto
  then show ?thesis by (simp add: evaluator_write_def Memory_write_def)
qed

lemma run_date_exchange_last_write:
  assumes "run_date_exchange L P ua aa ub ab w = (Inr e, w')"
  shows "\<exists>old t md. entries (evaluator_memory w') = old @ [\<lparr>entry_text = t, entry_metadata = md\<rparr>]
           \<and> map_of md ''type'' = Some (PStr ''date_score'')"
proof -
  from assms obtain ia ib scn transcr nts ts delta w5 where
    "conclude_exchange L P ua aa ub ab ia ib scn transcr nts ts delta w5 = (Inr e, w')"
    unfolding run_date_exchange_def Let_def and_then_Inr by blast
  then show ?thesis by (rule conclude_exchange_last_write)
qed

text \<open>
  C5, as amended. An agent operation is not a stateless call of the provider.
  \<open>run_intake_summary\<close> sends exactly one request, whether or not the call returns;
  when it returns, exactly one entry has been appended to the agent's memory, and the
  entries already there, the memory's metadata, the other agents and the evaluator are
  as before. \<open>run_date_exchange\<close> with both agents present has, when it returns, sent
  exactly 13 requests (scene, test moment, six turns, notes, delta insight, two
  reflections, score); every memory has kept its entries and its metadata, and the last
  entry of the evaluator's memory is the new \<open>date_score\<close> entry.
\<close>

theorem agent_operations_effects:
  "(\<exists>req. requests_since w (snd (run_intake_summary L P a x w)) = [(IntakeSummaryCall, req)])
   \<and> (\<forall>d w'. run_intake_summary L P a x w = (Inr d, w') \<longrightarrow>
         (\<exists>e. entries (memory (matchmakers w' a)) = entries (memory (matchmakers w a)) @ [e])
         \<and> metadata (memory (matchmakers w' a)) = metadata (memory (matchmakers w a))
         \<and> (\<forall>b. b \<noteq> a \<longrightarrow> matchmakers w' b = matchmakers w b)
         \<and> evaluator_memory w' = evaluator_memory w)
   \<and> (\<forall>e w'. run_date_exchange L P ua (Some a) ub (Some b) w = (Inr e, w') \<longrightarrow>
         map fst (requests_since w w') = exchange_sites
         \<and> length (requests_since w w') = 13
         \<and> grows w w'
         \<and> (\<exists>old t md. entries (evaluator_memory w') = old @ [\<lparr>entry_text = t, entry_metadata = md\<rparr>]
               \<and> map_of md ''type'' = Some (PStr ''date_score'')))"
proof (intro conjI allI impI)
  show "\<exists>req. requests_since w (snd (run_intake_summary L P a x w)) = [(IntakeSummaryCall, req)]"
    using run_intake_summary_calls [of L P a x w] by (auto simp: requests_since_def)
next
  fix d w' assume "run_intake_summary L P a x w = (Inr d, w')"
  from run_intake_summary_frame [OF this]
  show "\<exists>e. entries (memory (matchmakers w' a)) = entries (memory (matchmakers w a)) @ [e]"
    and "metadata (memory (matchmakers w' a)) = metadata (memory (matchmakers w a))"
    and "evaluator_memory w' = evaluator_memory w"
    and "\<And>b. b \<noteq> a \<Longrightarrow> matchmakers w' b = matchmakers w b"
    by blast+
next
  fix e w' assume run: "run_date_exchange L P ua (Some a) ub (Some b) w = (Inr e, w')"
  from run_date_exchange_run [OF run] obtain cs where
    cs: "effect w w' cs" "exchange_record L P ua (Some a) ub (Some b) (length (calls w)) cs e"
    by blast
  have rs: "requests_since w w' = cs" using cs(1) by (rule effect_requests_since)
  show "map fst (requests_since w w') = exchange_sites"
    unfolding rs using cs(2) by (rule exchange_record_sites)
  show "length (requests_since w w') = 13"
    unfolding rs using exchange_record_length [OF cs(2)] by (simp add: refl_sites_def)
  show "grows w w'" using cs(1) by (simp add: effect_def)
  show "\<exists>old t md. entries (evaluator_memory w') = old @ [\<lparr>entry_text = t, entry_metadata = md\<rparr>]
               \<and> map_of md ''type'' = Some (PStr ''date_score'')"
    using run by (rule run_date_exchange_last_write)
qed

lemma always_answers: "answers_all (always r)" "configured (always r)"
  by (simp_all add: answers_all_def always_def configured_def both_set_def)


text \<open>The theorem for the demo users at startup, with a provider that always answers.\<close>

theorem agent_operations_effects_witness:
  "(\<exists>d w'. run_intake_summary small_lib (always ''{}'') ''user_001'' None startup = (Inr d, w')
        \<and> length (entries (memory (matchmakers w' ''user_001''))) = 1
        \<and> matchmakers w' ''user_002'' = matchmakers startup ''user_002'')
   \<and> (\<exists>e w'. run_date_exchange small_lib (always ''{}'') user_001 (Some ''user_001'')
                 user_002 (Some ''user_002'') startup = (Inr e, w')
          \<and> length (requests_since startup w') = 13 \<and> grows startup w'
          \<and> entries (evaluator_memory w') \<noteq> [])"
proof -
  let ?P = "always ''{}''"
  note T = agent_operations_effects [of startup small_lib ?P "''user_001''" None user_001
      user_002 "''user_002''"]
  obtain d w1 where r1: "run_intake_summary small_lib ?P ''user_001'' None startup = (Inr d, w1)"
    using run_intake_summary_total [of ?P small_lib "''user_001''" None startup]
    by (auto simp: always_def)
  obtain e w2 where r2: "run_date_exchange small_lib ?P user_001 (Some ''user_001'')
                 user_002 (Some ''user_002'') startup = (Inr e, w2)"
    using run_date_exchange_total [OF always_answers(1)] by blast
  have m: "entries (memory (matchmakers startup ''user_001'')) = []"
    by (simp add: startup_def MatchmakerAgent_init_def set_metadata_def Memory_init_def)
  have "length (entries (memory (matchmakers w1 ''user_001''))) = 1
        \<and> matchmakers w1 ''user_002'' = matchmakers startup ''user_002''"
    using T r1 m by auto
  moreover have "length (requests_since startup w2) = 13 \<and> grows startup w2
        \<and> entries (evaluator_memory w2) \<noteq> []"
    using T r2 by auto
  ultimately show ?thesis using r1 r2 by blast
qed

text \<open>
  C5 as stated fails on both counts: the intake summary of the first demo user changes
  that agent's memory, and a date exchange sends 13 requests, not one.
\<close>

theorem agent_operation_counterexample:
  "entries (memory (matchmakers after_intake ''user_001''))
     \<noteq> entries (memory (matchmakers startup ''user_001''))
   \<and> length (calls after_date) = length (calls startup) + 13"
proof -
  have "entries (memory (matchmakers startup ''user_001'')) = []"
    by (simp add: startup_def MatchmakerAgent_init_def set_metadata_def Memory_init_def)
  moreover have "entries (memory (matchmakers after_intake ''user_001'')) \<noteq> []"
    by (simp add: after_intake_def run_intake_summary_def and_then_def chat_def always_def
        Let_def agent_write_def Memory_write_def)
  moreover have "length (calls after_date) = length (calls startup) + 13"
  proof -
    obtain e w' where run: "run_date_exchange small_lib (always ''{}'') user_001 (Some ''user_001'')
                 user_002 (Some ''user_002'') startup = (Inr e, w')"
      using run_date_exchange_total [OF always_answers(1)] by blast
    from run_date_exchange_run [OF run] obtain cs where
      cs: "effect startup w' cs"
          "exchange_record small_lib (always ''{}'') user_001 (Some ''user_001'') user_002
             (Some ''user_002'') (length (calls startup)) cs e"
      by blast
    have "length cs = 13" using exchange_record_length [OF cs(2)] by (simp add: refl_sites_def)
    then show ?thesis
      using effect_length [OF cs(1)] run by (simp add: after_date_def)
  qed
  ultimately show ?thesis by simp
qed




end
